theory Spec2Isabelle
  imports Complex_Main "HOL-Library.Extended_Nat"
begin

section \<open>JavaScript numbers\<close>

text \<open>
  World coordinates and cell sizes are JavaScript numbers, that is IEEE 754 binary64
  values, and the coordinate transforms of the grid compute with them. A \<open>double\<close> is a
  finite value (\<open>Finite 0\<close> is the positive zero), the negative zero, an infinity or
  NaN. Every arithmetic operation computes the exact real result and rounds it to the
  nearest representable value, ties to the even significand: 53 significant bits,
  exponents from \<open>-1022\<close> to \<open>1023\<close>, gradual underflow below \<open>2^-1022\<close> and
  overflow to an infinity from \<open>2^1024\<close> on.
\<close>

datatype double = Finite real | NegZero | PlusInfinity | MinusInfinity | NaN

text \<open>The number of binary digits of a positive integer (0 for the others).\<close>

function bitLength :: "int \<Rightarrow> int" where
  "bitLength n = (if n \<le> 0 then 0 else 1 + bitLength (n div 2))"
  by pat_completeness auto
termination
  by (relation "measure nat") auto

text \<open>For \<open>x > 0\<close>, the exponent \<open>e\<close> with \<open>2^e \<le> x < 2^(e+1)\<close>.\<close>

definition floorLog2 :: "real \<Rightarrow> int" where
  "floorLog2 x =
     (if x \<ge> 1 then bitLength \<lfloor>x\<rfloor> - 1
      else - bitLength (\<lceil>1 / x\<rceil> - 1))"

definition pow2 :: "int \<Rightarrow> real" where
  "pow2 e = (if e \<ge> 0 then 2 ^ nat e else 1 / 2 ^ nat (- e))"

definition roundHalfEven :: "real \<Rightarrow> int" where
  "roundHalfEven q =
     (if q - of_int \<lfloor>q\<rfloor> < 1 / 2 then \<lfloor>q\<rfloor>
      else if q - of_int \<lfloor>q\<rfloor> > 1 / 2 then \<lfloor>q\<rfloor> + 1
      else if even \<lfloor>q\<rfloor> then \<lfloor>q\<rfloor> else \<lfloor>q\<rfloor> + 1)"

definition roundDouble :: "real \<Rightarrow> double" where
  "roundDouble x =
     (if x = 0 then Finite 0
      else
        (let e = max (floorLog2 \<bar>x\<bar>) (- 1022);
             u = pow2 (e - 52);
             r = of_int (roundHalfEven (x / u)) * u
         in if \<bar>r\<bar> \<ge> pow2 1024 then (if x > 0 then PlusInfinity else MinusInfinity)
            else if r = 0 then (if x > 0 then Finite 0 else NegZero)
            else Finite r))"

definition isNaN :: "double \<Rightarrow> bool" where
  "isNaN d = (case d of NaN \<Rightarrow> True | _ \<Rightarrow> False)"

definition isInf :: "double \<Rightarrow> bool" where
  "isInf d = (case d of PlusInfinity \<Rightarrow> True | MinusInfinity \<Rightarrow> True | _ \<Rightarrow> False)"

definition isZero :: "double \<Rightarrow> bool" where
  "isZero d = (case d of Finite x \<Rightarrow> x = 0 | NegZero \<Rightarrow> True | _ \<Rightarrow> False)"

text \<open>The sign bit: \<open>True\<close> for a negative value.\<close>

definition signBit :: "double \<Rightarrow> bool" where
  "signBit d = (case d of Finite x \<Rightarrow> x < 0 | NegZero \<Rightarrow> True | MinusInfinity \<Rightarrow> True | _ \<Rightarrow> False)"

definition realValue :: "double \<Rightarrow> real" where
  "realValue d = (case d of Finite x \<Rightarrow> x | _ \<Rightarrow> 0)"

definition signedZero :: "bool \<Rightarrow> double" where
  "signedZero negative = (if negative then NegZero else Finite 0)"

definition signedInf :: "bool \<Rightarrow> double" where
  "signedInf negative = (if negative then MinusInfinity else PlusInfinity)"

definition dneg :: "double \<Rightarrow> double" where
  "dneg d =
     (case d of
        Finite x \<Rightarrow> if x = 0 then NegZero else Finite (- x)
      | NegZero \<Rightarrow> Finite 0
      | PlusInfinity \<Rightarrow> MinusInfinity
      | MinusInfinity \<Rightarrow> PlusInfinity
      | NaN \<Rightarrow> NaN)"

definition dadd :: "double \<Rightarrow> double \<Rightarrow> double" where
  "dadd a b =
     (if isNaN a \<or> isNaN b then NaN
      else if isInf a \<and> isInf b then (if a = b then a else NaN)
      else if isInf a then a
      else if isInf b then b
      else if a = NegZero \<and> b = NegZero then NegZero
      else if realValue a + realValue b = 0 then Finite 0
      else roundDouble (realValue a + realValue b))"

definition dsub :: "double \<Rightarrow> double \<Rightarrow> double" where
  "dsub a b = dadd a (dneg b)"

definition dmul :: "double \<Rightarrow> double \<Rightarrow> double" where
  "dmul a b =
     (if isNaN a \<or> isNaN b then NaN
      else if (isInf a \<and> isZero b) \<or> (isZero a \<and> isInf b) then NaN
      else if isInf a \<or> isInf b then signedInf (signBit a \<noteq> signBit b)
      else if isZero a \<or> isZero b then signedZero (signBit a \<noteq> signBit b)
      else roundDouble (realValue a * realValue b))"

definition ddiv :: "double \<Rightarrow> double \<Rightarrow> double" where
  "ddiv a b =
     (if isNaN a \<or> isNaN b then NaN
      else if (isInf a \<and> isInf b) \<or> (isZero a \<and> isZero b) then NaN
      else if isInf a \<or> isZero b then signedInf (signBit a \<noteq> signBit b)
      else if isInf b \<or> isZero a then signedZero (signBit a \<noteq> signBit b)
      else roundDouble (realValue a / realValue b))"


text \<open>An integer (a row or column number, or a literal) as a number.\<close>

definition ofInt :: "int \<Rightarrow> double" where
  "ofInt n = roundDouble (of_int n)"



section \<open>The grid model (class GridManager)\<close>

text \<open>
  The TypeScript class \<open>GridManager\<close> keeps a lattice \<open>_grid: GridCell[][]\<close> together
  with the public configuration fields \<open>rows\<close>, \<open>cols\<close>, \<open>cellWidth\<close>, \<open>cellHeight\<close>
  and \<open>startPosition\<close>. Methods mutate the object in place; here every method takes the
  manager and returns the new one beside its return value.

  Numbers: grid indices and dimensions are \<open>int\<close>; cell sizes and world coordinates
  are \<open>double\<close>, and the two coordinate transforms compute on them with the rounding
  operations above, in the order in which the source writes them.
  Scene nodes (\<open>Node\<close>) are opaque handles, modelled as natural numbers.
  Logging, event emission and the drawing of the grid have no influence on the state
  modelled here and are left out, and with them the fields that only serve them: the
  colours and visual nodes of the manager, and \<open>localPosition\<close> and the free-form
  \<open>data\<close> of a cell.
\<close>

type_synonym Node = nat

record Vec3 =
  vx :: double
  vy :: double
  vz :: double

record GridCoordinate =
  row :: int
  col :: int

datatype GridCellType = EMPTY | PLANT_ZONE | PATH | SPAWN | GOAL | OBSTACLE | SPECIAL

record GridCell =
  coordinate :: GridCoordinate
  worldPosition :: Vec3
  occupied :: bool
  occupant :: "Node option"
  cellType :: GridCellType
  walkable :: bool
  buildable :: bool

record GridManager =
  rows :: int
  cols :: int
  cellWidth :: double
  cellHeight :: double
  startPosition :: Vec3
  showGrid :: bool
  grid :: "GridCell list list"

text \<open>\<open>Partial<GridConfig>\<close>: every field may be absent (\<open>undefined\<close>).\<close>

record PartialGridConfig =
  cfg_rows :: "int option"
  cfg_cols :: "int option"
  cfg_cellWidth :: "double option"
  cfg_cellHeight :: "double option"
  cfg_startPosition :: "Vec3 option"
  cfg_showGrid :: "bool option"

subsection \<open>Cell creation\<close>

definition determineCellType :: "GridManager \<Rightarrow> int \<Rightarrow> int \<Rightarrow> GridCellType" where
  "determineCellType g r c =
     (if c = cols g - 1 then SPAWN
      else if c = 0 then GOAL
      else if c \<ge> 1 \<and> c \<le> cols g - 2 then PLANT_ZONE
      else EMPTY)"

definition configureCellByType :: "GridCell \<Rightarrow> GridCell" where
  "configureCellByType cell =
     (case cellType cell of
        SPAWN \<Rightarrow> cell\<lparr>walkable := True, buildable := False\<rparr>
      | GOAL \<Rightarrow> cell\<lparr>walkable := True, buildable := False\<rparr>
      | PLANT_ZONE \<Rightarrow> cell\<lparr>walkable := False, buildable := True\<rparr>
      | PATH \<Rightarrow> cell\<lparr>walkable := True, buildable := False\<rparr>
      | OBSTACLE \<Rightarrow> cell\<lparr>walkable := False, buildable := False\<rparr>
      | _ \<Rightarrow> cell\<lparr>walkable := True, buildable := True\<rparr>)"

text \<open>
  \<open>x = startPosition.x + col * cellWidth + cellWidth / 2\<close> and
  \<open>y = startPosition.y - row * cellHeight - cellHeight / 2\<close>, each operation rounded.
\<close>

definition gridToWorldPosition :: "GridManager \<Rightarrow> int \<Rightarrow> int \<Rightarrow> Vec3" where
  "gridToWorldPosition g r c =
     \<lparr>vx = dadd (dadd (vx (startPosition g)) (dmul (ofInt c) (cellWidth g)))
                (ddiv (cellWidth g) (Finite 2)),
      vy = dsub (dsub (vy (startPosition g)) (dmul (ofInt r) (cellHeight g)))
                (ddiv (cellHeight g) (Finite 2)),
      vz = vz (startPosition g)\<rparr>"

definition createGridCell :: "GridManager \<Rightarrow> int \<Rightarrow> int \<Rightarrow> GridCell" where
  "createGridCell g r c =
     configureCellByType
       \<lparr>coordinate = \<lparr>row = r, col = c\<rparr>,
        worldPosition = gridToWorldPosition g r c,
        occupied = False,
        occupant = None,
        cellType = determineCellType g r c,
        walkable = True,
        buildable = True\<rparr>"

text \<open>
  \<open>initializeGrid\<close>: the two nested \<open>for\<close> loops fill row \<open>0 .. rows-1\<close>, column
  \<open>0 .. cols-1\<close>; for \<open>rows \<le> 0\<close> the outer loop does not run and the lattice is empty.
\<close>

definition initializeGrid :: "GridManager \<Rightarrow> GridManager" where
  "initializeGrid g =
     g\<lparr>grid := map (\<lambda>r. map (\<lambda>c. createGridCell g r c) [0 .. cols g - 1]) [0 .. rows g - 1]\<rparr>"

subsection \<open>Coordinates\<close>

definition isValidCoordinate :: "GridManager \<Rightarrow> int \<Rightarrow> int \<Rightarrow> bool" where
  "isValidCoordinate g r c \<longleftrightarrow> r \<ge> 0 \<and> r < rows g \<and> c \<ge> 0 \<and> c < cols g"


subsection \<open>Cell access and mutation\<close>

text \<open>
  \<open>getCell\<close> reads \<open>this._grid[row][col]\<close> after the bounds check against \<open>rows\<close> and
  \<open>cols\<close>. The lattice is only ever written by \<open>initializeGrid\<close>, which builds it from
  \<open>rows\<close> and \<open>cols\<close>; \<open>grid_wf\<close> states the resulting shape, and the theorems about
  the contents of cells assume it, so no read below is out of range.
\<close>

definition getCell :: "GridManager \<Rightarrow> int \<Rightarrow> int \<Rightarrow> GridCell option" where
  "getCell g r c =
     (if \<not> isValidCoordinate g r c then None
      else Some (grid g ! nat r ! nat c))"

definition grid_wf :: "GridManager \<Rightarrow> bool" where
  "grid_wf g \<longleftrightarrow>
     length (grid g) = nat (rows g) \<and>
     (\<forall>i < length (grid g).
        length (grid g ! i) = nat (cols g) \<and>
        (\<forall>j < length (grid g ! i).
           coordinate (grid g ! i ! j) = \<lparr>row = int i, col = int j\<rparr>))"

text \<open>The in-place write \<open>cell.f = v\<close> on the object stored at \<open>_grid[row][col]\<close>.\<close>

definition putCell :: "GridManager \<Rightarrow> int \<Rightarrow> int \<Rightarrow> GridCell \<Rightarrow> GridManager" where
  "putCell g r c cell = g\<lparr>grid := (grid g)[nat r := (grid g ! nat r)[nat c := cell]]\<rparr>"

definition setCellOccupied :: "GridManager \<Rightarrow> int \<Rightarrow> int \<Rightarrow> Node option \<Rightarrow> bool \<times> GridManager" where
  "setCellOccupied g r c occ =
     (case getCell g r c of
        None \<Rightarrow> (False, g)
      | Some cell \<Rightarrow>
          if occ \<noteq> None \<and> occupied cell then (False, g)
          else if occ \<noteq> None \<and> \<not> buildable cell then (False, g)
          else (True, putCell g r c (cell\<lparr>occupied := (occ \<noteq> None), occupant := occ\<rparr>)))"

definition clearCell :: "GridManager \<Rightarrow> int \<Rightarrow> int \<Rightarrow> bool \<times> GridManager" where
  "clearCell g r c = setCellOccupied g r c None"

text \<open>
  \<open>canPlaceAt\<close> returns \<open>cell && !cell.occupied && cell.buildable\<close>: JavaScript's \<open>&&\<close>
  yields \<open>null\<close> (here \<open>None\<close>) when the cell is \<open>null\<close>, and a boolean otherwise.
\<close>

definition canPlaceAt :: "GridManager \<Rightarrow> int \<Rightarrow> int \<Rightarrow> bool option" where
  "canPlaceAt g r c =
     (case getCell g r c of
        None \<Rightarrow> None
      | Some cell \<Rightarrow> Some (\<not> occupied cell \<and> buildable cell))"

definition canWalkAt :: "GridManager \<Rightarrow> int \<Rightarrow> int \<Rightarrow> bool option" where
  "canWalkAt g r c =
     (case getCell g r c of
        None \<Rightarrow> None
      | Some cell \<Rightarrow> Some (walkable cell \<and> \<not> occupied cell))"

definition setCellType :: "GridManager \<Rightarrow> int \<Rightarrow> int \<Rightarrow> GridCellType \<Rightarrow> bool \<times> GridManager" where
  "setCellType g r c t =
     (case getCell g r c of
        None \<Rightarrow> (False, g)
      | Some cell \<Rightarrow> (True, putCell g r c (configureCellByType (cell\<lparr>cellType := t\<rparr>))))"

subsection \<open>Neighbours\<close>

definition directions :: "bool \<Rightarrow> (int \<times> int) list" where
  "directions includeDiagonal =
     (if includeDiagonal
      then [(-1,-1), (-1,0), (-1,1), (0,-1), (0,1), (1,-1), (1,0), (1,1)]
      else [(-1,0), (0,-1), (0,1), (1,0)])"

fun collectNeighbors :: "GridManager \<Rightarrow> int \<Rightarrow> int \<Rightarrow> (int \<times> int) list \<Rightarrow> GridCell list" where
  "collectNeighbors g r c [] = []"
| "collectNeighbors g r c ((dr, dc) # ds) =
     (case getCell g (r + dr) (c + dc) of
        None \<Rightarrow> collectNeighbors g r c ds
      | Some cell \<Rightarrow> cell # collectNeighbors g r c ds)"

definition getNeighborCells :: "GridManager \<Rightarrow> int \<Rightarrow> int \<Rightarrow> bool \<Rightarrow> GridCell list" where
  "getNeighborCells g r c includeDiagonal = collectNeighbors g r c (directions includeDiagonal)"

subsection \<open>Reconfiguration\<close>

text \<open>
  \<open>reconfigureGrid\<close> copies each field that is present in the partial configuration and
  then calls \<open>initializeGrid\<close> (and redraws). There is no check of the values.
\<close>

definition reconfigureGrid :: "GridManager \<Rightarrow> PartialGridConfig \<Rightarrow> GridManager" where
  "reconfigureGrid g config =
     (let g1 = (case cfg_rows config of None \<Rightarrow> g | Some v \<Rightarrow> g\<lparr>rows := v\<rparr>);
          g2 = (case cfg_cols config of None \<Rightarrow> g1 | Some v \<Rightarrow> g1\<lparr>cols := v\<rparr>);
          g3 = (case cfg_cellWidth config of None \<Rightarrow> g2 | Some v \<Rightarrow> g2\<lparr>cellWidth := v\<rparr>);
          g4 = (case cfg_cellHeight config of None \<Rightarrow> g3 | Some v \<Rightarrow> g3\<lparr>cellHeight := v\<rparr>);
          g5 = (case cfg_startPosition config of None \<Rightarrow> g4 | Some v \<Rightarrow> g4\<lparr>startPosition := v\<rparr>);
          g6 = (case cfg_showGrid config of None \<Rightarrow> g5 | Some v \<Rightarrow> g5\<lparr>showGrid := v\<rparr>)
      in initializeGrid g6)"

subsection \<open>The derivation table of the specification, and a sample grid\<close>

text \<open>
  The specification's table: Spawn, Goal and Path are walkable and not buildable,
  PlantZone is buildable and not walkable, Obstacle is neither, Empty and Special are
  both. The pair is (walkable, buildable).
\<close>

definition derivation_table :: "GridCellType \<Rightarrow> bool \<times> bool" where
  "derivation_table t =
     (if t = SPAWN \<or> t = GOAL \<or> t = PATH then (True, False)
      else if t = PLANT_ZONE then (False, True)
      else if t = OBSTACLE then (False, False)
      else (True, True))"

definition cell_flags :: "GridCell \<Rightarrow> bool \<times> bool" where
  "cell_flags cell = (walkable cell, buildable cell)"

definition config59 :: GridManager where
  "config59 = \<lparr>rows = 5, cols = 9, cellWidth = Finite 100, cellHeight = Finite 100,
     startPosition = \<lparr>vx = Finite (-400), vy = Finite 200, vz = Finite 0\<rparr>,
     showGrid = True, grid = []\<rparr>"

definition grid59 :: GridManager where
  "grid59 = initializeGrid config59"

text \<open>The default grid after a plant (node 7) was placed on cell (2,3).\<close>

definition grid59_planted :: GridManager where
  "grid59_planted = snd (setCellOccupied grid59 2 3 (Some 7))"

text \<open>A 3 x 3 grid, whose centre cell has all eight neighbours.\<close>

definition config33 :: GridManager where
  "config33 = \<lparr>rows = 3, cols = 3, cellWidth = Finite 100, cellHeight = Finite 100,
     startPosition = \<lparr>vx = Finite 0, vy = Finite 0, vz = Finite 0\<rparr>,
     showGrid = True, grid = []\<rparr>"

definition grid33 :: GridManager where
  "grid33 = initializeGrid config33"

text \<open>
  What \<open>reconfigureGrid\<close> does to the configuration fields, written as one update:
  a field present in the partial configuration replaces the manager's, an absent one
  leaves it.
\<close>

definition applyConfig :: "GridManager \<Rightarrow> PartialGridConfig \<Rightarrow> GridManager" where
  "applyConfig g config =
     g\<lparr>rows := (case cfg_rows config of None \<Rightarrow> rows g | Some v \<Rightarrow> v),
       cols := (case cfg_cols config of None \<Rightarrow> cols g | Some v \<Rightarrow> v),
       cellWidth := (case cfg_cellWidth config of None \<Rightarrow> cellWidth g | Some v \<Rightarrow> v),
       cellHeight := (case cfg_cellHeight config of None \<Rightarrow> cellHeight g | Some v \<Rightarrow> v),
       startPosition := (case cfg_startPosition config of None \<Rightarrow> startPosition g | Some v \<Rightarrow> v),
       showGrid := (case cfg_showGrid config of None \<Rightarrow> showGrid g | Some v \<Rightarrow> v)\<rparr>"

text \<open>A partial configuration that only sets \<open>rows\<close> to 0.\<close>

definition config_rows0 :: PartialGridConfig where
  "config_rows0 = \<lparr>cfg_rows = Some 0, cfg_cols = None, cfg_cellWidth = None,
     cfg_cellHeight = None, cfg_startPosition = None, cfg_showGrid = None\<rparr>"




section \<open>Path search (GridManager.findPath)\<close>

text \<open>
  The locals of \<open>findPath\<close>: the open list and the three maps. The maps are keyed by
  \<open>getKey(coord)\<close>, the string \<open>row,col\<close>; two integer coordinates have the same key
  exactly when they are equal, so the key is modelled as the pair. Scores are
  JavaScript numbers that are either a step count or \<open>Infinity\<close>: \<open>enat\<close>.
\<close>

type_synonym Key = "int \<times> int"

record AStar =
  openSet :: "GridCoordinate list"
  cameFrom :: "Key \<rightharpoonup> GridCoordinate"
  gScore :: "Key \<rightharpoonup> enat"
  fScore :: "Key \<rightharpoonup> enat"

definition getKey :: "GridCoordinate \<Rightarrow> Key" where
  "getKey coord = (row coord, col coord)"

definition heuristic :: "GridCoordinate \<Rightarrow> GridCoordinate \<Rightarrow> enat" where
  "heuristic a b = enat (nat (\<bar>row a - row b\<bar> + \<bar>col a - col b\<bar>))"

text \<open>
  \<open>m.get(k) || Infinity\<close>: JavaScript's \<open>||\<close> yields its right operand when the left
  one is falsy, and both \<open>undefined\<close> (no entry) and the number \<open>0\<close> are falsy.
\<close>

definition orInfinity :: "enat option \<Rightarrow> enat" where
  "orInfinity v = (case v of None \<Rightarrow> \<infinity> | Some n \<Rightarrow> if n = 0 then \<infinity> else n)"

text \<open>
  The scan for the open node of least \<open>fScore\<close>: \<open>current\<close> starts as \<open>openSet[0]\<close> and
  is replaced by \<open>openSet[i]\<close>, \<open>i = 1, 2, ...\<close>, when that one's score is strictly less.
\<close>

fun selectMin :: "(Key \<rightharpoonup> enat) \<Rightarrow> GridCoordinate list \<Rightarrow> nat \<Rightarrow> GridCoordinate \<times> nat \<Rightarrow> GridCoordinate \<times> nat" where
  "selectMin fs [] i best = best"
| "selectMin fs (x # xs) i best =
     selectMin fs xs (Suc i)
       (if orInfinity (fs (getKey x)) < orInfinity (fs (getKey (fst best))) then (x, i) else best)"

text \<open>
  Path reconstruction: \<open>while (temp) { path.unshift(temp); temp = cameFrom.get(getKey(temp)); }\<close>.
  The loop follows \<open>cameFrom\<close> until a node has no entry.
\<close>

partial_function (option) reconstructPath ::
  "(Key \<rightharpoonup> GridCoordinate) \<Rightarrow> GridCoordinate option \<Rightarrow> GridCoordinate list \<Rightarrow> GridCoordinate list option" where
  "reconstructPath cf temp path =
     (case temp of
        None \<Rightarrow> Some path
      | Some t \<Rightarrow> reconstructPath cf (cf (getKey t)) (t # path))"

text \<open>\<open>openSet.splice(currentIndex, 1)\<close>.\<close>

definition splice1 :: "nat \<Rightarrow> 'a list \<Rightarrow> 'a list" where
  "splice1 i xs = take i xs @ drop (Suc i) xs"

text \<open>The \<open>for\<close> loop over the neighbour cells of \<open>current\<close>.\<close>

fun relaxNeighbors :: "GridCoordinate \<Rightarrow> GridCoordinate \<Rightarrow> GridCell list \<Rightarrow> AStar \<Rightarrow> AStar" where
  "relaxNeighbors e current [] st = st"
| "relaxNeighbors e current (neighborCell # rest) st =
     (if \<not> walkable neighborCell then relaxNeighbors e current rest st
      else
        (let neighbor = coordinate neighborCell;
             tentativeGScore = orInfinity (gScore st (getKey current)) + 1
         in if tentativeGScore < orInfinity (gScore st (getKey neighbor))
            then relaxNeighbors e current rest
                   (st\<lparr>cameFrom := (cameFrom st)(getKey neighbor \<mapsto> current),
                       gScore := (gScore st)(getKey neighbor \<mapsto> tentativeGScore),
                       fScore := (fScore st)(getKey neighbor \<mapsto> tentativeGScore + heuristic neighbor e),
                       openSet :=
                         (if list_ex (\<lambda>coord. row coord = row neighbor \<and> col coord = col neighbor) (openSet st)
                          then openSet st
                          else openSet st @ [neighbor])\<rparr>)
            else relaxNeighbors e current rest st))"

text \<open>
  The main \<open>while (openSet.length > 0)\<close> loop. The result is \<open>None\<close> when the loop does
  not terminate, \<open>Some None\<close> for the return value \<open>null\<close> and \<open>Some (Some path)\<close> for a
  path.
\<close>

partial_function (option) astarLoop ::
  "GridManager \<Rightarrow> GridCoordinate \<Rightarrow> AStar \<Rightarrow> GridCoordinate list option option" where
  "astarLoop g e st =
     (case openSet st of
        [] \<Rightarrow> Some None
      | first # others \<Rightarrow>
          (let (current, currentIndex) = selectMin (fScore st) others 1 (first, 0)
           in if row current = row e \<and> col current = col e
              then map_option Some (reconstructPath (cameFrom st) (Some current) [])
              else astarLoop g e
                     (relaxNeighbors e current
                        (getNeighborCells g (row current) (col current) False)
                        (st\<lparr>openSet := splice1 currentIndex (openSet st)\<rparr>))))"

definition findPath :: "GridManager \<Rightarrow> GridCoordinate \<Rightarrow> GridCoordinate \<Rightarrow> GridCoordinate list option option" where
  "findPath g start e =
     (if \<not> isValidCoordinate g (row start) (col start) \<or> \<not> isValidCoordinate g (row e) (col e)
      then Some None
      else astarLoop g e
             \<lparr>openSet = [start],
              cameFrom = Map.empty,
              gScore = [getKey start \<mapsto> 0],
              fScore = [getKey start \<mapsto> heuristic start e]\<rparr>)"

text \<open>
  Two grids are identical except in the \<open>occupied\<close> and \<open>occupant\<close> fields of their
  cells when they become equal after those two fields are reset in every cell.
\<close>

definition clearOccupancy :: "GridCell \<Rightarrow> GridCell" where
  "clearOccupancy cell = cell\<lparr>occupied := False, occupant := None\<rparr>"

definition eraseOccupancy :: "GridManager \<Rightarrow> GridManager" where
  "eraseOccupancy g = g\<lparr>grid := map (map clearOccupancy) (grid g)\<rparr>"

text \<open>
  A corridor of one row: a goal cell, a middle cell and a spawn cell. The middle cell is
  made an Empty cell (walkable and buildable) and then occupied by node 7.
\<close>

definition config13 :: GridManager where
  "config13 = \<lparr>rows = 1, cols = 3, cellWidth = Finite 100, cellHeight = Finite 100,
     startPosition = \<lparr>vx = Finite 0, vy = Finite 0, vz = Finite 0\<rparr>,
     showGrid = True, grid = []\<rparr>"

definition corridor :: GridManager where
  "corridor = snd (setCellType (initializeGrid config13) 0 1 EMPTY)"

definition corridorOccupied :: GridManager where
  "corridorOccupied = snd (setCellOccupied corridor 0 1 (Some 7))"

text \<open>The state of the search when \<open>findPath\<close> enters its loop.\<close>

definition initialSearch :: "GridCoordinate \<Rightarrow> GridCoordinate \<Rightarrow> AStar" where
  "initialSearch start e =
     \<lparr>openSet = [start],
      cameFrom = Map.empty,
      gScore = [getKey start \<mapsto> 0],
      fScore = [getKey start \<mapsto> heuristic start e]\<rparr>"

text \<open>
  A state of the search in the corridor in which the current node (0,2) has the
  positive score 1 and nothing else has been seen.
\<close>

definition probeState :: AStar where
  "probeState =
     \<lparr>openSet = [],
      cameFrom = Map.empty,
      gScore = [(0, 2) \<mapsto> 1],
      fScore = [(0, 2) \<mapsto> 3]\<rparr>"

section \<open>Projectiles (class Bullet)\<close>

text \<open>
  The \<open>Bullet\<close> component. \<open>nodeActive\<close> is \<open>this.node.active\<close>; \<open>hasHit\<close>, \<open>hitCount\<close> and
  \<open>hitTargets\<close> are the private \<open>_hasHit\<close>, \<open>_hitCount\<close> and \<open>_hitTargets\<close> (a
  \<open>Set<Node>\<close>). Sprite handling and the start time are left out. What the component sends out (the damage
  handed to the target's controller and the events emitted on its node) is returned as
  a list of events in the order of the calls.

  The scene enters through \<open>takesDamage\<close>: \<open>takesDamage target\<close> says that
  \<open>target.getComponent('ActorController')\<close> exists and has a \<open>takeDamage\<close> method. Only
  then does \<open>dealDamageToTarget\<close> call it; otherwise it does nothing.
\<close>

datatype WeaponType = BULLET_TYPE_NORMAL | BULLET_TYPE_CANNON | BULLET_TYPE_MULTIPLE | BULLET_TYPE_LASER

record Bullet =
  damage :: real
  speed :: real
  lifetime :: real
  ownerTag :: string
  targetTags :: "string list"
  penetration :: real
  explosionRadius :: real
  isLaser :: bool
  weaponType :: WeaponType
  hasHit :: bool
  hitCount :: nat
  hitTargets :: "Node set"
  nodeActive :: bool

datatype BulletEvent =
    TakeDamage Node real
  | BulletExplosion Node real real
  | BulletHit Node real WeaponType nat
  | BulletDestroy WeaponType nat

definition onEnable :: "Bullet \<Rightarrow> Bullet" where
  "onEnable b = b\<lparr>hasHit := False, hitCount := 0, hitTargets := {}\<rparr>"

definition onDisable :: "Bullet \<Rightarrow> Bullet" where
  "onDisable b = b\<lparr>hasHit := False, hitCount := 0, hitTargets := {}\<rparr>"

definition isValidTarget :: "Bullet \<Rightarrow> string \<Rightarrow> bool" where
  "isValidTarget b targetTag =
     (if targetTag = ownerTag b then False
      else (targetTag \<in> set (targetTags b) \<or> targetTags b = []))"

definition dealDamageToTarget :: "(Node \<Rightarrow> bool) \<Rightarrow> Node \<Rightarrow> real \<Rightarrow> BulletEvent list" where
  "dealDamageToTarget takesDamage target dmg =
     (if takesDamage target then [TakeDamage target dmg] else [])"

text \<open>The explosion is centred on the target's world position, named here by the target.\<close>

definition applyExplosionDamage :: "Bullet \<Rightarrow> Node \<Rightarrow> BulletEvent list" where
  "applyExplosionDamage b target = [BulletExplosion target (explosionRadius b) (damage b * 0.7)]"

definition applyDamageByWeaponType :: "(Node \<Rightarrow> bool) \<Rightarrow> Bullet \<Rightarrow> Node \<Rightarrow> BulletEvent list" where
  "applyDamageByWeaponType takesDamage b target =
     (case weaponType b of
        BULLET_TYPE_NORMAL \<Rightarrow> dealDamageToTarget takesDamage target (damage b)
      | BULLET_TYPE_CANNON \<Rightarrow>
          dealDamageToTarget takesDamage target (damage b) @
          (if explosionRadius b > 0 then applyExplosionDamage b target else [])
      | BULLET_TYPE_MULTIPLE \<Rightarrow> dealDamageToTarget takesDamage target (damage b)
      | BULLET_TYPE_LASER \<Rightarrow> dealDamageToTarget takesDamage target (damage b))"

definition shouldDestroyAfterHit :: "Bullet \<Rightarrow> bool" where
  "shouldDestroyAfterHit b =
     (if isLaser b \<and> penetration b > 0 then real (hitCount b) \<ge> penetration b
      else if penetration b \<le> 0 then True
      else real (hitCount b) \<ge> penetration b)"

definition destroyBullet :: "Bullet \<Rightarrow> Bullet \<times> BulletEvent list" where
  "destroyBullet b = (b\<lparr>nodeActive := False\<rparr>, [BulletDestroy (weaponType b) (hitCount b)])"

definition hitTarget :: "(Node \<Rightarrow> bool) \<Rightarrow> Bullet \<Rightarrow> Node \<Rightarrow> Bullet \<times> BulletEvent list" where
  "hitTarget takesDamage b target =
     (let b1 = b\<lparr>hitTargets := insert target (hitTargets b), hitCount := hitCount b + 1\<rparr>;
          ev = applyDamageByWeaponType takesDamage b1 target @
               [BulletHit target (damage b1) (weaponType b1) (hitCount b1)]
      in if shouldDestroyAfterHit b1
         then (fst (destroyBullet b1), ev @ snd (destroyBullet b1))
         else (b1\<lparr>hasHit := True\<rparr>, ev))"

text \<open>
  \<open>onBeginContact\<close>: \<open>otherNode\<close> is the node of the other collider and \<open>otherTag\<close> the
  tag that \<open>getNodeTag\<close> reads from it.
\<close>

definition onBeginContact :: "(Node \<Rightarrow> bool) \<Rightarrow> Bullet \<Rightarrow> Node \<Rightarrow> string \<Rightarrow> Bullet \<times> BulletEvent list" where
  "onBeginContact takesDamage b otherNode otherTag =
     (if hasHit b \<and> penetration b \<le> 0 then (b, [])
      else if otherNode \<in> hitTargets b then (b, [])
      else if isValidTarget b otherTag then hitTarget takesDamage b otherNode
      else (b, []))"

text \<open>A cannon shell as the weapon system configures it: penetration 2, not a laser.\<close>

definition cannonBullet :: Bullet where
  "cannonBullet = onEnable
     \<lparr>damage = 50, speed = 300, lifetime = 4, ownerTag = ''Player'', targetTags = [''Enemy''],
      penetration = 2, explosionRadius = 80, isLaser = False, weaponType = BULLET_TYPE_CANNON,
      hasHit = False, hitCount = 0, hitTargets = {}, nodeActive = True\<rparr>"

text \<open>
  A hit result counts as destroying the projectile when \<open>destroyBullet\<close> ran: the node
  is inactive (back in the pool) and a \<open>bullet-destroy\<close> event was emitted.
\<close>

definition destroyed :: "Bullet \<times> BulletEvent list \<Rightarrow> bool" where
  "destroyed r \<longleftrightarrow> \<not> nodeActive (fst r) \<and> list_ex (\<lambda>ev. case ev of BulletDestroy _ _ \<Rightarrow> True | _ \<Rightarrow> False) (snd r)"

section \<open>The weapon controller (class WeaponsSystem)\<close>

text \<open>
  \<open>WeaponConfig\<close>, with its fields prefixed by \<open>wc_\<close> (several share their names with
  fields of \<open>Bullet\<close>); the display name is left out.
\<close>

record WeaponConfig =
  wc_type :: WeaponType
  wc_damage :: real
  wc_fireRate :: real
  wc_bulletSpeed :: real
  wc_bulletLifetime :: real
  wc_range :: real
  wc_bulletCount :: int
  wc_spreadAngle :: real
  wc_penetration :: real
  wc_explosionRadius :: real
  wc_energyCost :: real
  wc_cooldown :: real

definition DEFAULT_WEAPON_CONFIGS :: "WeaponType \<Rightarrow> WeaponConfig" where
  "DEFAULT_WEAPON_CONFIGS t =
     (case t of
        BULLET_TYPE_NORMAL \<Rightarrow>
          \<lparr>wc_type = BULLET_TYPE_NORMAL, wc_damage = 10, wc_fireRate = 2, wc_bulletSpeed = 500,
           wc_bulletLifetime = 3, wc_range = 400, wc_bulletCount = 1, wc_spreadAngle = 0,
           wc_penetration = 0, wc_explosionRadius = 0, wc_energyCost = 1, wc_cooldown = 0\<rparr>
      | BULLET_TYPE_CANNON \<Rightarrow>
          \<lparr>wc_type = BULLET_TYPE_CANNON, wc_damage = 50, wc_fireRate = 0.5, wc_bulletSpeed = 300,
           wc_bulletLifetime = 4, wc_range = 600, wc_bulletCount = 1, wc_spreadAngle = 0,
           wc_penetration = 2, wc_explosionRadius = 80, wc_energyCost = 5, wc_cooldown = 1\<rparr>
      | BULLET_TYPE_MULTIPLE \<Rightarrow>
          \<lparr>wc_type = BULLET_TYPE_MULTIPLE, wc_damage = 8, wc_fireRate = 3, wc_bulletSpeed = 450,
           wc_bulletLifetime = 2.5, wc_range = 350, wc_bulletCount = 3, wc_spreadAngle = 30,
           wc_penetration = 0, wc_explosionRadius = 0, wc_energyCost = 3, wc_cooldown = 0.2\<rparr>
      | BULLET_TYPE_LASER \<Rightarrow>
          \<lparr>wc_type = BULLET_TYPE_LASER, wc_damage = 25, wc_fireRate = 5, wc_bulletSpeed = 1000,
           wc_bulletLifetime = 1.5, wc_range = 800, wc_bulletCount = 1, wc_spreadAngle = 0,
           wc_penetration = 5, wc_explosionRadius = 0, wc_energyCost = 2, wc_cooldown = 0\<rparr>)"

text \<open>
  The controller's state. \<open>bulletPrefabs\<close> is indexed by the number of the weapon type;
  an entry may be \<open>null\<close>, and a prefab is an opaque engine asset. The bullet pools, the
  set of active bullets and the scene nodes they hold are engine objects; they form the
  component \<open>bullets\<close> of an arbitrary type \<open>'w\<close>.
\<close>

type_synonym Prefab = nat

record 'w WeaponsSystem =
  currentWeaponType :: WeaponType
  bulletPrefabs :: "Prefab option list"
  firePoint :: "Node option"
  autoFire :: bool
  currentEnergy :: real
  maxEnergy :: real
  energyRegenRate :: real
  weaponConfigs :: "WeaponType \<rightharpoonup> WeaponConfig"
  lastFireTime :: real
  cooldownEndTime :: real
  ownerTag_w :: string
  bullets :: 'w

text \<open>
  The two methods that work on the pools and the scene: \<open>executeFirePattern\<close> (with the
  \<open>fire...Bullet\<close> methods, \<open>getBulletFromPool\<close>, \<open>configureBullet\<close> and
  \<open>activateBullet\<close> under it) and \<open>updateBullets\<close> (with \<open>recycleBullet\<close>). In the source
  they read the controller's fields and write only \<open>_bulletPools\<close>, \<open>_activeBullets\<close> and
  the bullet nodes, through the engine. They are taken as parameters: any functions
  from what they read to the new \<open>bullets\<close> component. \<open>executeFirePattern\<close> also says
  whether it completed (\<open>True\<close>) or an engine call threw (\<open>False\<close>), as
  \<open>this.firePoint.addChild\<close> does when no fire point is set.
\<close>

record 'w BulletOps =
  executeFirePattern :: "WeaponConfig \<Rightarrow> Vec3 option \<Rightarrow> real \<Rightarrow> 'w WeaponsSystem \<Rightarrow> bool \<times> 'w"
  updateBullets :: "real \<Rightarrow> real \<Rightarrow> 'w WeaponsSystem \<Rightarrow> 'w"

datatype 'a Outcome = Returned 'a | Threw

definition weaponIndex :: "WeaponType \<Rightarrow> nat" where
  "weaponIndex t =
     (case t of BULLET_TYPE_NORMAL \<Rightarrow> 0 | BULLET_TYPE_CANNON \<Rightarrow> 1
      | BULLET_TYPE_MULTIPLE \<Rightarrow> 2 | BULLET_TYPE_LASER \<Rightarrow> 3)"

text \<open>\<open>this.bulletPrefabs[weaponType]\<close>: \<open>undefined\<close> beyond the end of the array.\<close>

definition prefabAt :: "Prefab option list \<Rightarrow> WeaponType \<Rightarrow> Prefab option" where
  "prefabAt ps t = (if weaponIndex t < length ps then ps ! weaponIndex t else None)"

definition loadWeaponConfigs :: "'w WeaponsSystem \<Rightarrow> 'w WeaponsSystem" where
  "loadWeaponConfigs s = s\<lparr>weaponConfigs := (\<lambda>t. Some (DEFAULT_WEAPON_CONFIGS t))\<rparr>"

definition getCurrentWeaponConfig :: "'w WeaponsSystem \<Rightarrow> WeaponConfig" where
  "getCurrentWeaponConfig s =
     (case weaponConfigs s (currentWeaponType s) of
        Some config \<Rightarrow> config
      | None \<Rightarrow> DEFAULT_WEAPON_CONFIGS BULLET_TYPE_NORMAL)"

text \<open>
  \<open>canFire\<close>; \<open>now\<close> is \<open>director.getTotalTime() / 1000\<close>. The fire interval is
  \<open>1.0 / fireRate\<close>, which is \<open>Infinity\<close> for a fire rate of zero: the elapsed time is
  then less than the interval and the method returns false (HOL's \<open>1 / 0 = 0\<close> would
  let the check pass).
\<close>

definition canFire :: "real \<Rightarrow> 'w WeaponsSystem \<Rightarrow> bool" where
  "canFire now s =
     (let config = getCurrentWeaponConfig s
      in if now < cooldownEndTime s then False
         else if wc_fireRate config = 0 then False
         else if now - lastFireTime s < 1 / wc_fireRate config then False
         else if currentEnergy s < wc_energyCost config then False
         else if prefabAt (bulletPrefabs s) (currentWeaponType s) = None then False
         else True)"

definition fire :: "'w BulletOps \<Rightarrow> real \<Rightarrow> Vec3 option \<Rightarrow> 'w WeaponsSystem \<Rightarrow> bool Outcome \<times> 'w WeaponsSystem" where
  "fire ops now targetPosition s =
     (if \<not> canFire now s then (Returned False, s)
      else
        (let weaponConfig = getCurrentWeaponConfig s;
             s1 = s\<lparr>currentEnergy := currentEnergy s - wc_energyCost weaponConfig\<rparr>;
             s2 = s1\<lparr>cooldownEndTime := now + wc_cooldown weaponConfig, lastFireTime := now\<rparr>;
             r = executeFirePattern ops weaponConfig targetPosition now s2;
             s3 = s2\<lparr>bullets := snd r\<rparr>
         in if fst r then (Returned True, s3) else (Threw, s3)))"

definition updateEnergyRegen :: "real \<Rightarrow> 'w WeaponsSystem \<Rightarrow> 'w WeaponsSystem" where
  "updateEnergyRegen deltaTime s =
     (if currentEnergy s < maxEnergy s
      then s\<lparr>currentEnergy := min (maxEnergy s) (currentEnergy s + energyRegenRate s * deltaTime)\<rparr>
      else s)"

definition update :: "'w BulletOps \<Rightarrow> real \<Rightarrow> real \<Rightarrow> 'w WeaponsSystem \<Rightarrow> unit Outcome \<times> 'w WeaponsSystem" where
  "update ops deltaTime now s =
     (let s1 = updateEnergyRegen deltaTime s;
          s2 = s1\<lparr>bullets := updateBullets ops deltaTime now s1\<rparr>
      in if autoFire s2 \<and> canFire now s2
         then (case fire ops now None s2 of
                 (Returned _, s3) \<Rightarrow> (Returned (), s3)
               | (Threw, s3) \<Rightarrow> (Threw, s3))
         else (Returned (), s2))"

text \<open>
  A sequence of calls made by the game loop and the player. A call that throws leaves
  the fields as they were written up to the throw, and the next call works on them.
\<close>

datatype Call = Update real real | Fire real "Vec3 option"

fun step :: "'w BulletOps \<Rightarrow> Call \<Rightarrow> 'w WeaponsSystem \<Rightarrow> 'w WeaponsSystem" where
  "step ops (Update deltaTime now) s = snd (update ops deltaTime now s)"
| "step ops (Fire now targetPosition) s = snd (fire ops now targetPosition s)"

fun run :: "'w BulletOps \<Rightarrow> Call list \<Rightarrow> 'w WeaponsSystem \<Rightarrow> 'w WeaponsSystem" where
  "run ops [] s = s"
| "run ops (c # cs) s = run ops cs (step ops c s)"

text \<open>The assumptions of the energy claim.\<close>

definition costsNonneg :: "'w WeaponsSystem \<Rightarrow> bool" where
  "costsNonneg s \<longleftrightarrow> (\<forall>t config. weaponConfigs s t = Some config \<longrightarrow> 0 \<le> wc_energyCost config)"

fun ticksNonneg :: "Call list \<Rightarrow> bool" where
  "ticksNonneg [] = True"
| "ticksNonneg (Update deltaTime now # cs) = (0 \<le> deltaTime \<and> ticksNonneg cs)"
| "ticksNonneg (Fire now targetPosition # cs) = ticksNonneg cs"

text \<open>
  A controller with the default settings and configurations and a prefab for the normal
  bullet, over a trivial bullet world.
\<close>

definition noBulletOps :: "unit BulletOps" where
  "noBulletOps = \<lparr>executeFirePattern = (\<lambda>config target now s. (True, ())),
                  updateBullets = (\<lambda>deltaTime now s. ())\<rparr>"

definition weapons0 :: "unit WeaponsSystem" where
  "weapons0 = loadWeaponConfigs
     \<lparr>currentWeaponType = BULLET_TYPE_NORMAL, bulletPrefabs = [Some 0], firePoint = Some 0,
      autoFire = False, currentEnergy = 100, maxEnergy = 100, energyRegenRate = 5,
      weaponConfigs = Map.empty, lastFireTime = 0, cooldownEndTime = 0,
      ownerTag_w = ''Player'', bullets = ()\<rparr>"

text \<open>The invariant carried through a sequence of calls.\<close>

definition energyInv :: "'w WeaponsSystem \<Rightarrow> bool" where
  "energyInv s \<longleftrightarrow> 0 \<le> currentEnergy s \<and> currentEnergy s \<le> maxEnergy s \<and>
     costsNonneg s \<and> 0 \<le> energyRegenRate s"

section \<open>Basic facts about rounding\<close>

text \<open>
  \<open>floorLog2\<close> is the binary exponent, and every number \<open>m * 2^e\<close> with
  \<open>|m| < 2^53\<close> and \<open>-1074 \<le> e \<le> 971\<close> is representable: rounding returns it.
\<close>

declare bitLength.simps [simp del]

lemma bitLength_nonpos [simp]: "n \<le> 0 \<Longrightarrow> bitLength n = 0"
  by (simp add: bitLength.simps)



lemma pow2_powr: "pow2 e = 2 powr (of_int e)"
proof (cases "0 \<le> e")
  case True
  then show ?thesis by (simp add: pow2_def powr_realpow [symmetric])
next
  case False
  then have "(2::real) powr (of_int e) = 1 / 2 powr (of_int (- e))"
    by (simp add: powr_minus field_simps)
  also have "\<dots> = 1 / 2 ^ nat (- e)"
    using False by (simp add: powr_realpow [symmetric])
  finally show ?thesis using False by (simp add: pow2_def)
qed

lemma pow2_pos [simp]: "0 < pow2 e"
  by (simp add: pow2_powr)

lemma pow2_abs [simp]: "\<bar>pow2 e\<bar> = pow2 e"
  using pow2_pos [of e] by linarith

lemma pow2_nonzero [simp]: "pow2 e \<noteq> 0"
  using pow2_pos [of e] by linarith




























section \<open>Basic facts about the lattice\<close>

lemma coordinate_configureCellByType [simp]:
  "coordinate (configureCellByType cell) = coordinate cell"
  by (cases "cellType cell") (simp_all add: configureCellByType_def)

lemma occupied_configureCellByType [simp]:
  "occupied (configureCellByType cell) = occupied cell"
  by (cases "cellType cell") (simp_all add: configureCellByType_def)

lemma occupant_configureCellByType [simp]:
  "occupant (configureCellByType cell) = occupant cell"
  by (cases "cellType cell") (simp_all add: configureCellByType_def)

lemma cellType_configureCellByType [simp]:
  "cellType (configureCellByType cell) = cellType cell"
  by (cases "cellType cell") (simp_all add: configureCellByType_def)

lemma worldPosition_configureCellByType [simp]:
  "worldPosition (configureCellByType cell) = worldPosition cell"
  by (cases "cellType cell") (simp_all add: configureCellByType_def)

lemma initializeGrid_wf: "grid_wf (initializeGrid g)"
  by (simp add: grid_wf_def initializeGrid_def nth_upto createGridCell_def)

lemma rows_initializeGrid [simp]: "rows (initializeGrid g) = rows g"
  and cols_initializeGrid [simp]: "cols (initializeGrid g) = cols g"
  by (simp_all add: initializeGrid_def)

lemma isValid_putCell [simp]:
  "isValidCoordinate (putCell g r c cell) r' c' = isValidCoordinate g r' c'"
  by (simp add: isValidCoordinate_def putCell_def)

lemma getCell_putCell_same:
  "grid_wf g \<Longrightarrow> isValidCoordinate g r c \<Longrightarrow> getCell (putCell g r c cell) r c = Some cell"
  by (simp add: getCell_def) (simp add: putCell_def grid_wf_def isValidCoordinate_def)

lemma getCell_putCell_other:
  "grid_wf g \<Longrightarrow> (r', c') \<noteq> (r, c) \<Longrightarrow> isValidCoordinate g r c \<Longrightarrow>
   getCell (putCell g r c cell) r' c' = getCell g r' c'"
  by (auto simp add: getCell_def putCell_def isValidCoordinate_def grid_wf_def nth_list_update)

lemma grid_wf_putCell:
  "grid_wf g \<Longrightarrow> coordinate cell = \<lparr>row = r, col = c\<rparr> \<Longrightarrow> isValidCoordinate g r c \<Longrightarrow> grid_wf (putCell g r c cell)"
  by (auto simp add: grid_wf_def putCell_def isValidCoordinate_def nth_list_update)

lemma getCell_coordinate:
  "grid_wf g \<Longrightarrow> getCell g r c = Some cell \<Longrightarrow> coordinate cell = \<lparr>row = r, col = c\<rparr>"
  by (auto simp add: getCell_def grid_wf_def isValidCoordinate_def split: if_splits)

lemma configureCellByType_table:
  "cell_flags (configureCellByType cell) = derivation_table (cellType cell)"
  by (cases "cellType cell") (simp_all add: configureCellByType_def derivation_table_def cell_flags_def)

lemma getCell_initializeGrid:
  "isValidCoordinate g r c \<Longrightarrow> getCell (initializeGrid g) r c = Some (createGridCell g r c)"
  by (simp add: getCell_def isValidCoordinate_def initializeGrid_def nth_upto)

lemma cellType_createGridCell: "cellType (createGridCell g r c) = determineCellType g r c"
  by (simp add: createGridCell_def)

lemma grid59_wf: "grid_wf grid59"
  unfolding grid59_def by (rule initializeGrid_wf)

lemma grid59_dims [simp]: "rows grid59 = 5" "cols grid59 = 9"
  by (simp_all add: grid59_def config59_def)

lemma getCell_grid59:
  "isValidCoordinate grid59 r c \<Longrightarrow> getCell grid59 r c = Some (createGridCell config59 r c)"
  unfolding grid59_def by (simp add: getCell_initializeGrid isValidCoordinate_def)

lemma grid59_planted_eq:
  "grid59_planted = putCell grid59 2 3 (createGridCell config59 2 3\<lparr>occupied := True, occupant := Some 7\<rparr>)"
proof -
  have v: "isValidCoordinate grid59 2 3" by (simp add: isValidCoordinate_def)
  have "buildable (createGridCell config59 2 3) \<and> \<not> occupied (createGridCell config59 2 3)"
    by (simp add: createGridCell_def determineCellType_def configureCellByType_def config59_def)
  then show ?thesis
    using getCell_grid59 [OF v] by (simp add: grid59_planted_def setCellOccupied_def)
qed

lemma grid59_planted_wf: "grid_wf grid59_planted"
  unfolding grid59_planted_eq
  by (rule grid_wf_putCell [OF grid59_wf]) (simp_all add: createGridCell_def isValidCoordinate_def)

lemma getCell_grid59_planted:
  "getCell grid59_planted 2 3 =
     Some (createGridCell config59 2 3\<lparr>occupied := True, occupant := Some 7\<rparr>)"
  unfolding grid59_planted_eq
  by (rule getCell_putCell_same [OF grid59_wf]) (simp add: isValidCoordinate_def)

lemma collectNeighbors_map_filter:
  "collectNeighbors g r c ds = List.map_filter (\<lambda>(dr, dc). getCell g (r + dr) (c + dc)) ds"
  by (induction ds) (auto simp: List.map_filter_simps split: option.splits)

lemma collectNeighbors_coordinates:
  "grid_wf g \<Longrightarrow>
   map coordinate (collectNeighbors g r c ds) =
     map (\<lambda>(dr, dc). \<lparr>row = r + dr, col = c + dc\<rparr>)
       (filter (\<lambda>(dr, dc). isValidCoordinate g (r + dr) (c + dc)) ds)"
proof (induction ds)
  case Nil
  show ?case by simp
next
  case (Cons d ds)
  obtain dr dc where d: "d = (dr, dc)" by (cases d)
  show ?case
  proof (cases "getCell g (r + dr) (c + dc)")
    case None
    then have "\<not> isValidCoordinate g (r + dr) (c + dc)" by (simp add: getCell_def split: if_splits)
    with None Cons show ?thesis by (simp add: d)
  next
    case (Some cell)
    then have "isValidCoordinate g (r + dr) (c + dc)" by (simp add: getCell_def split: if_splits)
    with Some Cons getCell_coordinate [OF Cons.prems Some] show ?thesis by (simp add: d)
  qed
qed

lemma grid33_wf: "grid_wf grid33"
  unfolding grid33_def by (rule initializeGrid_wf)

lemma grid33_valid [simp]: "isValidCoordinate grid33 r c \<longleftrightarrow> 0 \<le> r \<and> r < 3 \<and> 0 \<le> c \<and> c < 3"
  by (simp add: isValidCoordinate_def grid33_def config33_def)

lemma reconfigureGrid_eq: "reconfigureGrid g config = initializeGrid (applyConfig g config)"
  by (cases g) (simp add: reconfigureGrid_def applyConfig_def Let_def split: option.splits)

lemma applyConfig_fields:
  "rows (applyConfig g config) = (case cfg_rows config of None \<Rightarrow> rows g | Some v \<Rightarrow> v)"
  "cols (applyConfig g config) = (case cfg_cols config of None \<Rightarrow> cols g | Some v \<Rightarrow> v)"
  "cellWidth (applyConfig g config) = (case cfg_cellWidth config of None \<Rightarrow> cellWidth g | Some v \<Rightarrow> v)"
  "cellHeight (applyConfig g config) = (case cfg_cellHeight config of None \<Rightarrow> cellHeight g | Some v \<Rightarrow> v)"
  by (simp_all add: applyConfig_def)

lemma initializeGrid_fields [simp]:
  "cellWidth (initializeGrid g) = cellWidth g"
  "cellHeight (initializeGrid g) = cellHeight g"
  "startPosition (initializeGrid g) = startPosition g"
  by (simp_all add: initializeGrid_def)

lemma isValid_initializeGrid [simp]:
  "isValidCoordinate (initializeGrid g) r c = isValidCoordinate g r c"
  by (simp add: isValidCoordinate_def)

lemma grid_initializeGrid_empty: "rows g \<le> 0 \<Longrightarrow> grid (initializeGrid g) = []"
  by (simp add: initializeGrid_def)

lemma length_grid_initializeGrid: "length (grid (initializeGrid g)) = nat (rows g)"
  by (simp add: initializeGrid_def)

text \<open>
  The shape \<open>grid_wf\<close> is established by \<open>initializeGrid\<close> (hence by
  \<open>reconfigureGrid\<close>) and kept by the two mutators, so it holds in every state the
  methods of the class produce.
\<close>

lemma grid_wf_setCellType: "grid_wf g \<Longrightarrow> grid_wf (snd (setCellType g r c t))"
proof (cases "getCell g r c")
  case None
  assume "grid_wf g"
  with None show ?thesis by (simp add: setCellType_def)
next
  case (Some cell)
  assume wf: "grid_wf g"
  from Some have v: "isValidCoordinate g r c" by (simp add: getCell_def split: if_splits)
  have "coordinate (configureCellByType (cell\<lparr>cellType := t\<rparr>)) = \<lparr>row = r, col = c\<rparr>"
    using getCell_coordinate [OF wf Some] by simp
  from grid_wf_putCell [OF wf this v] Some show ?thesis by (simp add: setCellType_def)
qed

lemma grid_wf_setCellOccupied: "grid_wf g \<Longrightarrow> grid_wf (snd (setCellOccupied g r c occ))"
proof (cases "getCell g r c")
  case None
  assume "grid_wf g"
  with None show ?thesis by (simp add: setCellOccupied_def)
next
  case (Some cell)
  assume wf: "grid_wf g"
  from Some have v: "isValidCoordinate g r c" by (simp add: getCell_def split: if_splits)
  have "coordinate (cell\<lparr>occupied := (occ \<noteq> None), occupant := occ\<rparr>) = \<lparr>row = r, col = c\<rparr>"
    using getCell_coordinate [OF wf Some] by simp
  from grid_wf_putCell [OF wf this v] Some wf show ?thesis by (auto simp add: setCellOccupied_def)
qed

lemma grid_wf_reconfigureGrid: "grid_wf (reconfigureGrid g config)"
  by (simp add: reconfigureGrid_def Let_def initializeGrid_wf)




section \<open>Basic facts about the path search\<close>

lemma orInfinity_zero [simp]: "orInfinity (Some 0) = \<infinity>" "orInfinity None = \<infinity>"
  by (simp_all add: orInfinity_def)

lemma relaxNeighbors_noop:
  "orInfinity (gScore st (getKey current)) = \<infinity> \<Longrightarrow> relaxNeighbors e current ncs st = st"
  by (induction ncs) (simp_all add: Let_def)

lemma findPath_result:
  "findPath g start e =
     Some (if isValidCoordinate g (row start) (col start) \<and> isValidCoordinate g (row e) (col e) \<and> start = e
           then Some [start] else None)"
proof (cases "isValidCoordinate g (row start) (col start) \<and> isValidCoordinate g (row e) (col e)")
  case False
  then show ?thesis by (auto simp: findPath_def)
next
  case True
  show ?thesis
  proof (cases "start = e")
    case eq: True
    have "reconstructPath Map.empty (Some e) [] = Some [e]"
      by (simp add: reconstructPath.simps)
    with True eq show ?thesis
      by (simp add: findPath_def astarLoop.simps)
  next
    case ne: False
    then have d: "\<not> (row start = row e \<and> col start = col e)" by auto
    let ?st = "\<lparr>openSet = [], cameFrom = Map.empty, gScore = [getKey start \<mapsto> 0],
                 fScore = [getKey start \<mapsto> heuristic start e]\<rparr>"
    have r: "relaxNeighbors e start ncs ?st = ?st" for ncs
      by (rule relaxNeighbors_noop) simp
    have "astarLoop g e ?st = Some None" by (simp add: astarLoop.simps)
    with True ne d show ?thesis
      by (subst findPath_def) (simp add: astarLoop.simps [of g e "\<lparr>openSet = [start], cameFrom = Map.empty, gScore = [getKey start \<mapsto> 0], fScore = [getKey start \<mapsto> heuristic start e]\<rparr>"] splice1_def r)
  qed
qed

lemma relaxNeighbors_cong:
  "map walkable ncs = map walkable ncs' \<Longrightarrow> map coordinate ncs = map coordinate ncs' \<Longrightarrow>
   relaxNeighbors e cur ncs st = relaxNeighbors e cur ncs' st"
proof (induction ncs arbitrary: ncs' st)
  case Nil
  then show ?case by simp
next
  case (Cons nc ncs)
  then obtain nc' rest where n: "ncs' = nc' # rest" by (cases ncs') auto
  with Cons.prems have h: "walkable nc = walkable nc'" "coordinate nc = coordinate nc'"
    "map walkable ncs = map walkable rest" "map coordinate ncs = map coordinate rest"
    by simp_all
  show ?case
    unfolding n by (simp add: h Let_def Cons.IH [OF h(3) h(4)])
qed

lemma eraseOccupancy_dims:
  assumes "eraseOccupancy g1 = eraseOccupancy g2"
  shows "rows g1 = rows g2" "cols g1 = cols g2"
    "map (map clearOccupancy) (grid g1) = map (map clearOccupancy) (grid g2)"
proof -
  have "rows (eraseOccupancy g1) = rows (eraseOccupancy g2)"
       "cols (eraseOccupancy g1) = cols (eraseOccupancy g2)"
       "grid (eraseOccupancy g1) = grid (eraseOccupancy g2)"
    using assms by simp_all
  then show "rows g1 = rows g2" "cols g1 = cols g2"
    "map (map clearOccupancy) (grid g1) = map (map clearOccupancy) (grid g2)"
    by (simp_all add: eraseOccupancy_def)
qed

lemma isValid_eraseOccupancy:
  "eraseOccupancy g1 = eraseOccupancy g2 \<Longrightarrow> isValidCoordinate g1 r c = isValidCoordinate g2 r c"
  using eraseOccupancy_dims(1,2) [of g1 g2] by (simp add: isValidCoordinate_def)

lemma getCell_eraseOccupancy:
  assumes e: "eraseOccupancy g1 = eraseOccupancy g2" and wf: "grid_wf g1"
  shows "map_option clearOccupancy (getCell g1 r c) = map_option clearOccupancy (getCell g2 r c)"
proof (cases "isValidCoordinate g1 r c")
  case False
  with isValid_eraseOccupancy [OF e, of r c] show ?thesis by (simp add: getCell_def)
next
  case True
  note m = eraseOccupancy_dims(3) [OF e]
  from m have "length (map (map clearOccupancy) (grid g1)) = length (map (map clearOccupancy) (grid g2))"
    by (simp only:)
  then have len: "length (grid g1) = length (grid g2)" by simp
  from True wf have i: "nat r < length (grid g1)" and j: "nat c < length (grid g1 ! nat r)"
    by (auto simp: grid_wf_def isValidCoordinate_def)
  from m have "map (map clearOccupancy) (grid g1) ! nat r = map (map clearOccupancy) (grid g2) ! nat r"
    by simp
  with i len have rowm: "map clearOccupancy (grid g1 ! nat r) = map clearOccupancy (grid g2 ! nat r)"
    by simp
  then have "length (map clearOccupancy (grid g1 ! nat r)) = length (map clearOccupancy (grid g2 ! nat r))"
    by (simp only:)
  then have len2: "length (grid g1 ! nat r) = length (grid g2 ! nat r)" by simp
  from rowm have "map clearOccupancy (grid g1 ! nat r) ! nat c = map clearOccupancy (grid g2 ! nat r) ! nat c"
    by simp
  with j len2 have "clearOccupancy (grid g1 ! nat r ! nat c) = clearOccupancy (grid g2 ! nat r ! nat c)"
    by simp
  with True isValid_eraseOccupancy [OF e, of r c] show ?thesis by (simp add: getCell_def)
qed

lemma clearOccupancy_fields [simp]:
  "walkable (clearOccupancy cell) = walkable cell"
  "coordinate (clearOccupancy cell) = coordinate cell"
  by (simp_all add: clearOccupancy_def)

lemma collectNeighbors_eraseOccupancy:
  assumes e: "eraseOccupancy g1 = eraseOccupancy g2" and wf: "grid_wf g1"
  shows "map clearOccupancy (collectNeighbors g1 r c ds) = map clearOccupancy (collectNeighbors g2 r c ds)"
proof (induction ds)
  case Nil
  show ?case by simp
next
  case (Cons d ds)
  obtain dr dc where d: "d = (dr, dc)" by (cases d)
  note g = getCell_eraseOccupancy [OF e wf, of "r + dr" "c + dc"]
  show ?case
  proof (cases "getCell g1 (r + dr) (c + dc)")
    case None
    with g have "getCell g2 (r + dr) (c + dc) = None" by simp
    with None Cons show ?thesis by (simp add: d)
  next
    case (Some a)
    with g obtain b where b: "getCell g2 (r + dr) (c + dc) = Some b" "clearOccupancy a = clearOccupancy b"
      by (cases "getCell g2 (r + dr) (c + dc)") auto
    with Some Cons show ?thesis by (simp add: d)
  qed
qed

lemma neighbors_view_eraseOccupancy:
  assumes e: "eraseOccupancy g1 = eraseOccupancy g2" and wf: "grid_wf g1"
  shows "map walkable (getNeighborCells g1 r c d) = map walkable (getNeighborCells g2 r c d)"
    and "map coordinate (getNeighborCells g1 r c d) = map coordinate (getNeighborCells g2 r c d)"
proof -
  let ?a = "collectNeighbors g1 r c (directions d)" and ?b = "collectNeighbors g2 r c (directions d)"
  have m: "map clearOccupancy ?a = map clearOccupancy ?b"
    by (rule collectNeighbors_eraseOccupancy [OF e wf])
  have "map walkable (map clearOccupancy ?a) = map walkable (map clearOccupancy ?b)"
       "map coordinate (map clearOccupancy ?a) = map coordinate (map clearOccupancy ?b)"
    by (simp_all only: m)
  then show "map walkable (getNeighborCells g1 r c d) = map walkable (getNeighborCells g2 r c d)"
    and "map coordinate (getNeighborCells g1 r c d) = map coordinate (getNeighborCells g2 r c d)"
    by (simp_all add: getNeighborCells_def comp_def)
qed

lemma eraseOccupancy_putCell:
  assumes wf: "grid_wf g" and c: "getCell g r c = Some cell"
  shows "eraseOccupancy (putCell g r c (cell\<lparr>occupied := b, occupant := occ\<rparr>)) = eraseOccupancy g"
proof -
  let ?cell' = "cell\<lparr>occupied := b, occupant := occ\<rparr>"
  let ?rw = "grid g ! nat r"
  from c have v: "isValidCoordinate g r c" and cell: "cell = ?rw ! nat c"
    by (auto simp: getCell_def split: if_splits)
  from v wf have i: "nat r < length (grid g)" and j: "nat c < length ?rw"
    by (auto simp: grid_wf_def isValidCoordinate_def)
  have cl: "clearOccupancy ?cell' = map clearOccupancy ?rw ! nat c"
    using j by (simp add: clearOccupancy_def cell)
  have "map clearOccupancy (?rw[nat c := ?cell']) = (map clearOccupancy ?rw)[nat c := clearOccupancy ?cell']"
    by (rule map_update)
  also have "\<dots> = map clearOccupancy ?rw"
    unfolding cl by (rule list_update_id)
  finally have rowm: "map clearOccupancy (?rw[nat c := ?cell']) = map (map clearOccupancy) (grid g) ! nat r"
    using i by simp
  have "map (map clearOccupancy) ((grid g)[nat r := ?rw[nat c := ?cell']])
        = (map (map clearOccupancy) (grid g))[nat r := map clearOccupancy (?rw[nat c := ?cell'])]"
    by (rule map_update)
  also have "\<dots> = map (map clearOccupancy) (grid g)"
    unfolding rowm by (rule list_update_id)
  finally show ?thesis by (simp add: eraseOccupancy_def putCell_def)
qed

lemma eraseOccupancy_grid59_planted: "eraseOccupancy grid59_planted = eraseOccupancy grid59"
  unfolding grid59_planted_eq
  by (rule eraseOccupancy_putCell [OF grid59_wf getCell_grid59]) (simp add: isValidCoordinate_def)

text \<open>
  The whole loop, from any state of the search: on grids that differ only in occupancy
  it gives the same result, or runs forever on both.
\<close>

lemma grid_wf_eraseOccupancy: "grid_wf (eraseOccupancy g) = grid_wf g"
  by (simp add: grid_wf_def eraseOccupancy_def cong: conj_cong)

lemma grid_wf_erase_eq:
  "eraseOccupancy g1 = eraseOccupancy g2 \<Longrightarrow> grid_wf g1 \<Longrightarrow> grid_wf g2"
  using grid_wf_eraseOccupancy [of g1] grid_wf_eraseOccupancy [of g2] by simp

lemma astarLoop_erase_Some:
  assumes run: "astarLoop g e st = Some y"
    and er: "eraseOccupancy g = eraseOccupancy g'" and wf: "grid_wf g"
  shows "astarLoop g' e st = Some y"
proof -
  let ?P = "\<lambda>g e st y. \<forall>g'. eraseOccupancy g = eraseOccupancy g' \<longrightarrow> grid_wf g \<longrightarrow>
              astarLoop g' e st = Some y"
  have "?P g e st y"
  proof (rule astarLoop.raw_induct [where P = ?P, OF _ run], intro allI impI)
    fix f g e st y g'
    assume IH: "\<And>g e st y. f g e st = Some y \<Longrightarrow> ?P g e st y"
      and body: "(case openSet st of
          [] \<Rightarrow> Some None
        | first # others \<Rightarrow>
            (let (current, currentIndex) = selectMin (fScore st) others 1 (first, 0)
             in if row current = row e \<and> col current = col e
                then map_option Some (reconstructPath (cameFrom st) (Some current) [])
                else f g e
                       (relaxNeighbors e current
                          (getNeighborCells g (row current) (col current) False)
                          (st\<lparr>openSet := splice1 currentIndex (openSet st)\<rparr>)))) = Some y"
      and er: "eraseOccupancy g = eraseOccupancy g'" and wf: "grid_wf g"
    show "astarLoop g' e st = Some y"
    proof (cases "openSet st")
      case Nil
      with body show ?thesis by (simp add: astarLoop.simps)
    next
      case (Cons first others)
      obtain current currentIndex
        where sel: "selectMin (fScore st) others (Suc 0) (first, 0) = (current, currentIndex)"
        by (cases "selectMin (fScore st) others (Suc 0) (first, 0)")
      show ?thesis
      proof (cases "row current = row e \<and> col current = col e")
        case True
        from body have "map_option Some (reconstructPath (cameFrom st) (Some current) []) = Some y"
          by (simp add: Cons sel True)
        then show ?thesis by (simp add: astarLoop.simps [of g' e st] Cons sel True)
      next
        case False
        let ?st = "\<lambda>h. relaxNeighbors e current (getNeighborCells h (row current) (col current) False)
                      (st\<lparr>openSet := splice1 currentIndex (first # others)\<rparr>)"
        from body have "f g e (?st g) = Some y" by (simp add: Cons sel False)
        from IH [OF this] er wf have "astarLoop g' e (?st g) = Some y" by blast
        moreover have "?st g = ?st g'"
          by (rule relaxNeighbors_cong [OF neighbors_view_eraseOccupancy [OF er wf]])
        ultimately show ?thesis
          by (simp add: astarLoop.simps [of g' e st] Cons sel False)
      qed
    qed
  qed
  with er wf show ?thesis by blast
qed

lemma astarLoop_eraseOccupancy:
  assumes er: "eraseOccupancy g1 = eraseOccupancy g2" and wf: "grid_wf g1"
  shows "astarLoop g1 e st = astarLoop g2 e st"
proof (cases "astarLoop g1 e st")
  case (Some y)
  with astarLoop_erase_Some [OF Some er wf] show ?thesis by simp
next
  case None
  show ?thesis
  proof (cases "astarLoop g2 e st")
    case n2: None
    with None show ?thesis by simp
  next
    case (Some y)
    from astarLoop_erase_Some [OF Some er [symmetric] grid_wf_erase_eq [OF er wf]] None
    show ?thesis by simp
  qed
qed

lemma findPath_initialSearch:
  "findPath g start e =
     (if \<not> isValidCoordinate g (row start) (col start) \<or> \<not> isValidCoordinate g (row e) (col e)
      then Some None else astarLoop g e (initialSearch start e))"
  by (simp add: findPath_def initialSearch_def)

lemma relaxNeighbors_initialSearch:
  "relaxNeighbors e start ncs ((initialSearch start e)\<lparr>openSet := os\<rparr>) =
     (initialSearch start e)\<lparr>openSet := os\<rparr>"
  by (rule relaxNeighbors_noop) (simp add: initialSearch_def)

lemma relaxNeighbors_opens:
  assumes w: "walkable cell"
    and g: "gScore st (getKey current) = Some (enat (Suc n))"
    and u: "gScore st (getKey (coordinate cell)) = None"
    and o: "\<not> list_ex (\<lambda>coord. row coord = row (coordinate cell) \<and> col coord = col (coordinate cell)) (openSet st)"
  shows "relaxNeighbors e current [cell] st =
           st\<lparr>cameFrom := (cameFrom st)(getKey (coordinate cell) \<mapsto> current),
               gScore := (gScore st)(getKey (coordinate cell) \<mapsto> enat (Suc (Suc n))),
               fScore := (fScore st)(getKey (coordinate cell) \<mapsto> enat (Suc (Suc n)) + heuristic (coordinate cell) e),
               openSet := openSet st @ [coordinate cell]\<rparr>"
proof -
  have t: "orInfinity (gScore st (getKey current)) + 1 = enat (Suc (Suc n))"
    by (simp add: g orInfinity_def one_enat_def zero_enat_def)
  show ?thesis
    using w o by (simp add: Let_def t u)
qed

lemma corridor_eq:
  "corridor = putCell (initializeGrid config13) 0 1
                (configureCellByType (createGridCell config13 0 1\<lparr>cellType := EMPTY\<rparr>))"
proof -
  have v: "isValidCoordinate config13 0 1" by (simp add: isValidCoordinate_def config13_def)
  show ?thesis by (simp add: corridor_def setCellType_def getCell_initializeGrid [OF v])
qed

lemma corridor_wf: "grid_wf corridor"
  unfolding corridor_def by (rule grid_wf_setCellType) (rule initializeGrid_wf)

lemma corridor_dims [simp]: "rows corridor = 1" "cols corridor = 3"
  by (simp_all add: corridor_eq putCell_def config13_def)

lemma corridor_middle:
  "getCell corridor 0 1 = Some (configureCellByType (createGridCell config13 0 1\<lparr>cellType := EMPTY\<rparr>))"
  unfolding corridor_eq
  by (rule getCell_putCell_same [OF initializeGrid_wf]) (simp add: isValidCoordinate_def config13_def)

lemma occupied_createGridCell [simp]: "\<not> occupied (createGridCell g r c)"
  by (simp add: createGridCell_def)

lemma corridor_middle_flags:
  "walkable (configureCellByType (createGridCell config13 0 1\<lparr>cellType := EMPTY\<rparr>))"
  "buildable (configureCellByType (createGridCell config13 0 1\<lparr>cellType := EMPTY\<rparr>))"
  "\<not> occupied (configureCellByType (createGridCell config13 0 1\<lparr>cellType := EMPTY\<rparr>))"
  by (simp_all add: configureCellByType_def)

lemma corridorOccupied_eq:
  "corridorOccupied = putCell corridor 0 1
     (configureCellByType (createGridCell config13 0 1\<lparr>cellType := EMPTY\<rparr>)
        \<lparr>occupied := True, occupant := Some 7\<rparr>)"
  by (simp add: corridorOccupied_def setCellOccupied_def corridor_middle corridor_middle_flags)

lemma corridorOccupied_wf: "grid_wf corridorOccupied"
  unfolding corridorOccupied_def by (rule grid_wf_setCellOccupied) (rule corridor_wf)

lemma corridorOccupied_dims [simp]: "rows corridorOccupied = 1" "cols corridorOccupied = 3"
  by (simp_all add: corridorOccupied_eq putCell_def)

lemma corridorOccupied_middle:
  "getCell corridorOccupied 0 1 =
     Some (configureCellByType (createGridCell config13 0 1\<lparr>cellType := EMPTY\<rparr>)
             \<lparr>occupied := True, occupant := Some 7\<rparr>)"
  unfolding corridorOccupied_eq
  by (rule getCell_putCell_same [OF corridor_wf]) (simp add: isValidCoordinate_def)

lemma corridor_erase: "eraseOccupancy corridorOccupied = eraseOccupancy corridor"
  unfolding corridorOccupied_eq
  by (rule eraseOccupancy_putCell [OF corridor_wf corridor_middle])

lemma corridorOccupied_neighbors:
  "getNeighborCells corridorOccupied 0 2 False =
     [configureCellByType (createGridCell config13 0 1\<lparr>cellType := EMPTY\<rparr>)
        \<lparr>occupied := True, occupant := Some 7\<rparr>]"
proof -
  have n: "getCell corridorOccupied (- 1) 2 = None" "getCell corridorOccupied 0 3 = None"
    "getCell corridorOccupied 1 2 = None"
    by (simp_all add: getCell_def isValidCoordinate_def)
  show ?thesis
    by (simp add: getNeighborCells_def directions_def n corridorOccupied_middle)
qed

section \<open>Basic facts about projectiles\<close>

lemma shouldDestroyAfterHit_iff:
  "shouldDestroyAfterHit b \<longleftrightarrow> penetration b \<le> 0 \<or> real (hitCount b) \<ge> penetration b"
  by (auto simp: shouldDestroyAfterHit_def)

lemma no_destroy_in_damage [simp]:
  "\<not> list_ex (\<lambda>ev. case ev of BulletDestroy _ _ \<Rightarrow> True | _ \<Rightarrow> False) (applyDamageByWeaponType takesDamage b t)"
  by (cases "weaponType b") (simp_all add: applyDamageByWeaponType_def dealDamageToTarget_def applyExplosionDamage_def)

lemma hitTarget_fields:
  "hitCount (fst (hitTarget takesDamage b t)) = hitCount b + 1"
  "hitTargets (fst (hitTarget takesDamage b t)) = insert t (hitTargets b)"
  "penetration (fst (hitTarget takesDamage b t)) = penetration b"
  "isLaser (fst (hitTarget takesDamage b t)) = isLaser b"
  "ownerTag (fst (hitTarget takesDamage b t)) = ownerTag b"
  "targetTags (fst (hitTarget takesDamage b t)) = targetTags b"
  by (simp_all add: hitTarget_def Let_def destroyBullet_def)

lemma hitTarget_active:
  "nodeActive (fst (hitTarget takesDamage b t)) \<longleftrightarrow>
     nodeActive b \<and> \<not> (penetration b \<le> 0 \<or> real (hitCount b + 1) \<ge> penetration b)"
  by (simp add: hitTarget_def Let_def destroyBullet_def shouldDestroyAfterHit_iff)

lemma hitTarget_hasHit:
  "\<not> (penetration b \<le> 0 \<or> real (hitCount b + 1) \<ge> penetration b) \<Longrightarrow> hasHit (fst (hitTarget takesDamage b t))"
  by (simp add: hitTarget_def Let_def destroyBullet_def shouldDestroyAfterHit_iff)

lemma hitTarget_destroyed:
  "nodeActive b \<Longrightarrow>
   destroyed (hitTarget takesDamage b t) \<longleftrightarrow> penetration b \<le> 0 \<or> real (hitCount b + 1) \<ge> penetration b"
  by (simp add: destroyed_def hitTarget_def Let_def destroyBullet_def shouldDestroyAfterHit_iff)

lemma isValidTarget_hitTarget [simp]:
  "isValidTarget (fst (hitTarget takesDamage b t)) tag = isValidTarget b tag"
  by (simp add: isValidTarget_def hitTarget_fields)

lemma isValidTarget_onEnable [simp]: "isValidTarget (onEnable b) tag = isValidTarget b tag"
  by (simp add: isValidTarget_def onEnable_def)

lemma cannonBullet_facts:
  "nodeActive cannonBullet" "penetration cannonBullet = 2" "onEnable cannonBullet = cannonBullet"
  "isValidTarget cannonBullet ''Enemy''" "hitTargets cannonBullet = {}" "\<not> hasHit cannonBullet"
  by (simp_all add: cannonBullet_def onEnable_def isValidTarget_def)

section \<open>Basic facts about the weapon controller\<close>

lemma default_cost_nonneg: "0 \<le> wc_energyCost (DEFAULT_WEAPON_CONFIGS t)"
  by (cases t) (simp_all add: DEFAULT_WEAPON_CONFIGS_def)

lemma current_cost_nonneg: "costsNonneg s \<Longrightarrow> 0 \<le> wc_energyCost (getCurrentWeaponConfig s)"
  by (auto simp: costsNonneg_def getCurrentWeaponConfig_def default_cost_nonneg split: option.splits)

lemma canFire_energy: "canFire now s \<Longrightarrow> wc_energyCost (getCurrentWeaponConfig s) \<le> currentEnergy s"
  by (simp add: canFire_def Let_def split: if_splits)

lemma fire_fields:
  "maxEnergy (snd (fire ops now tp s)) = maxEnergy s"
  "energyRegenRate (snd (fire ops now tp s)) = energyRegenRate s"
  "weaponConfigs (snd (fire ops now tp s)) = weaponConfigs s"
  "currentEnergy (snd (fire ops now tp s)) =
     (if canFire now s then currentEnergy s - wc_energyCost (getCurrentWeaponConfig s) else currentEnergy s)"
  by (simp_all add: fire_def Let_def)

lemma costsNonneg_cong: "weaponConfigs s' = weaponConfigs s \<Longrightarrow> costsNonneg s' = costsNonneg s"
  by (simp add: costsNonneg_def)

lemma fire_inv: "energyInv s \<Longrightarrow> energyInv (snd (fire ops now tp s))"
proof -
  assume i: "energyInv s"
  then have c: "0 \<le> wc_energyCost (getCurrentWeaponConfig s)"
    by (simp add: energyInv_def current_cost_nonneg)
  have k: "costsNonneg (snd (fire ops now tp s)) = costsNonneg s"
    by (rule costsNonneg_cong) (rule fire_fields)
  show ?thesis
    using i c canFire_energy [of now s] by (auto simp: energyInv_def fire_fields k)
qed

lemma regen_fields:
  "maxEnergy (updateEnergyRegen dt s) = maxEnergy s"
  "energyRegenRate (updateEnergyRegen dt s) = energyRegenRate s"
  "weaponConfigs (updateEnergyRegen dt s) = weaponConfigs s"
  by (simp_all add: updateEnergyRegen_def)

lemma regen_inv: "energyInv s \<Longrightarrow> 0 \<le> dt \<Longrightarrow> energyInv (updateEnergyRegen dt s)"
proof -
  assume i: "energyInv s" and d: "0 \<le> dt"
  then have "0 \<le> energyRegenRate s * dt" by (simp add: energyInv_def)
  moreover have "costsNonneg (updateEnergyRegen dt s) = costsNonneg s"
    by (rule costsNonneg_cong) (rule regen_fields)
  ultimately show ?thesis
    using i by (auto simp: energyInv_def updateEnergyRegen_def)
qed

lemma bullets_update_inv: "energyInv (s\<lparr>bullets := w\<rparr>) = energyInv s"
  by (simp add: energyInv_def costsNonneg_def)

lemma update_inv: "energyInv s \<Longrightarrow> 0 \<le> dt \<Longrightarrow> energyInv (snd (update ops dt now s))"
proof -
  assume i: "energyInv s" and d: "0 \<le> dt"
  let ?s2 = "(updateEnergyRegen dt s)\<lparr>bullets := updateBullets ops dt now (updateEnergyRegen dt s)\<rparr>"
  have i2: "energyInv ?s2" using regen_inv [OF i d] by (simp add: bullets_update_inv)
  have "snd (update ops dt now s) = (if autoFire ?s2 \<and> canFire now ?s2 then snd (fire ops now None ?s2) else ?s2)"
    by (simp add: update_def Let_def split: prod.splits Outcome.splits)
  with i2 fire_inv [OF i2] show ?thesis by simp
qed

lemma step_inv: "energyInv s \<Longrightarrow> ticksNonneg [c] \<Longrightarrow> energyInv (step ops c s)"
  by (cases c) (simp_all add: update_inv fire_inv)

lemma run_inv: "energyInv s \<Longrightarrow> ticksNonneg cs \<Longrightarrow> energyInv (run ops cs s)"
proof (induction cs arbitrary: s)
  case Nil
  then show ?case by simp
next
  case (Cons c cs)
  from Cons.prems(2) have "ticksNonneg [c]" "ticksNonneg cs" by (cases c; simp)+
  with Cons.prems(1) Cons.IH show ?case by (simp add: step_inv)
qed

lemma weapons0_facts:
  "0 \<le> currentEnergy weapons0" "currentEnergy weapons0 \<le> maxEnergy weapons0"
  "costsNonneg weapons0" "0 \<le> energyRegenRate weapons0"
  by (simp_all add: weapons0_def loadWeaponConfigs_def costsNonneg_def) (auto simp: default_cost_nonneg)

lemma weapons0_run:
  "currentEnergy (run noBulletOps [Fire 1 None, Update (2 / 125) (127 / 125)] weapons0) = 2477 / 25"
  by (simp add: weapons0_def loadWeaponConfigs_def noBulletOps_def fire_def canFire_def
      getCurrentWeaponConfig_def DEFAULT_WEAPON_CONFIGS_def prefabAt_def weaponIndex_def Let_def
      update_def updateEnergyRegen_def)

section \<open>The claims about the grid\<close>

text \<open>
  Claim C3. Every assignment of a cell type leaves the cell's flags as the fixed table
  says: \<open>configureCellByType\<close> computes exactly \<open>derivation_table\<close> and keeps the
  type; every cell made at grid creation has the flags of its type; and after
  \<open>setCellType\<close> on a valid coordinate the cell has the new type and that type's flags
  (the flags are recomputed on every call).
\<close>

theorem C3_flags:
  "cell_flags (configureCellByType cell) = derivation_table (cellType cell) \<and>
   cellType (configureCellByType cell) = cellType cell \<and>
   (isValidCoordinate g r c \<longrightarrow>
      (\<exists>cell'. getCell (initializeGrid g) r c = Some cell' \<and>
         cellType cell' = determineCellType g r c \<and>
         cell_flags cell' = derivation_table (cellType cell'))) \<and>
   (grid_wf g \<and> isValidCoordinate g r c \<longrightarrow>
      fst (setCellType g r c t) \<and>
      (\<exists>cell'. getCell (snd (setCellType g r c t)) r c = Some cell' \<and>
         cellType cell' = t \<and> cell_flags cell' = derivation_table t))"
proof (intro conjI impI)
  show "cell_flags (configureCellByType cell) = derivation_table (cellType cell)"
    by (rule configureCellByType_table)
  show "cellType (configureCellByType cell) = cellType cell" by simp
next
  assume v: "isValidCoordinate g r c"
  have "cell_flags (createGridCell g r c) = derivation_table (cellType (createGridCell g r c))"
    unfolding createGridCell_def by (simp add: configureCellByType_table)
  with v show "\<exists>cell'. getCell (initializeGrid g) r c = Some cell' \<and>
         cellType cell' = determineCellType g r c \<and>
         cell_flags cell' = derivation_table (cellType cell')"
    by (simp add: getCell_initializeGrid cellType_createGridCell)
next
  assume a: "grid_wf g \<and> isValidCoordinate g r c"
  then obtain cell where c: "getCell g r c = Some cell"
    by (auto simp: getCell_def)
  show "fst (setCellType g r c t)" using c by (simp add: setCellType_def)
  show "\<exists>cell'. getCell (snd (setCellType g r c t)) r c = Some cell' \<and>
         cellType cell' = t \<and> cell_flags cell' = derivation_table t"
    using a c by (simp add: setCellType_def getCell_putCell_same configureCellByType_table)
qed

text \<open>Witness for C3: cell (1,1) of the default 5 x 9 grid, set to Obstacle.\<close>

theorem C3_flags_witness:
  "isValidCoordinate grid59 1 1 \<and> grid_wf grid59 \<and>
   fst (setCellType grid59 1 1 OBSTACLE) \<and>
   (\<exists>cell'. getCell (snd (setCellType grid59 1 1 OBSTACLE)) 1 1 = Some cell' \<and>
      cellType cell' = OBSTACLE \<and> cell_flags cell' = (False, False))"
proof -
  have v: "isValidCoordinate grid59 1 1" by (simp add: isValidCoordinate_def)
  from C3_flags [of _ grid59 1 1 OBSTACLE] v grid59_wf show ?thesis
    by (simp add: derivation_table_def)
qed

text \<open>
  Claim C4. On a well-formed grid, \<open>setCellOccupied\<close> with an occupant returns true
  exactly when the coordinate is valid and the cell is buildable and not occupied; on
  success the cell is occupied by that occupant, on failure the grid is unchanged.
  With \<open>null\<close> it succeeds on every valid coordinate and clears the occupancy (and
  fails, changing nothing, on an invalid one). \<open>canPlaceAt\<close> is true exactly when
  occupying would succeed.
\<close>

theorem C4_occupancy:
  assumes wf: "grid_wf g"
  shows "(fst (setCellOccupied g r c (Some n)) \<longleftrightarrow>
            isValidCoordinate g r c \<and>
            (\<exists>cell. getCell g r c = Some cell \<and> buildable cell \<and> \<not> occupied cell)) \<and>
         (fst (setCellOccupied g r c (Some n)) \<longrightarrow>
            (\<exists>cell. getCell g r c = Some cell \<and>
               getCell (snd (setCellOccupied g r c (Some n))) r c =
                 Some (cell\<lparr>occupied := True, occupant := Some n\<rparr>))) \<and>
         (\<not> fst (setCellOccupied g r c (Some n)) \<longrightarrow> snd (setCellOccupied g r c (Some n)) = g) \<and>
         (isValidCoordinate g r c \<longrightarrow>
            fst (setCellOccupied g r c None) \<and>
            (\<exists>cell. getCell g r c = Some cell \<and>
               getCell (snd (setCellOccupied g r c None)) r c =
                 Some (cell\<lparr>occupied := False, occupant := None\<rparr>))) \<and>
         (\<not> isValidCoordinate g r c \<longrightarrow> setCellOccupied g r c None = (False, g)) \<and>
         (canPlaceAt g r c = Some True \<longleftrightarrow> fst (setCellOccupied g r c (Some n)))"
proof (cases "isValidCoordinate g r c")
  case False
  then have "getCell g r c = None" by (simp add: getCell_def)
  with False show ?thesis by (simp add: setCellOccupied_def canPlaceAt_def)
next
  case True
  then obtain cell where c: "getCell g r c = Some cell" by (auto simp: getCell_def)
  from wf True have put: "\<And>x. getCell (putCell g r c x) r c = Some x"
    by (simp add: getCell_putCell_same)
  from True c put show ?thesis
    by (simp add: setCellOccupied_def canPlaceAt_def)
qed

text \<open>Witness for C4: a plant-zone cell and a goal cell of the default grid.\<close>

theorem C4_occupancy_witness:
  "grid_wf grid59 \<and> isValidCoordinate grid59 2 3 \<and>
   fst (setCellOccupied grid59 2 3 (Some 7)) \<and>
   canPlaceAt grid59 2 3 = Some True \<and>
   \<not> fst (setCellOccupied grid59 2 0 (Some 7)) \<and>
   snd (setCellOccupied grid59 2 0 (Some 7)) = grid59 \<and>
   fst (setCellOccupied grid59 2 3 None)"
proof -
  have v: "isValidCoordinate grid59 2 3" by (simp add: isValidCoordinate_def)
  have v0: "isValidCoordinate grid59 2 0" by (simp add: isValidCoordinate_def)
  have c: "getCell grid59 2 3 = Some (createGridCell config59 2 3)"
    by (rule getCell_grid59 [OF v])
  have b: "buildable (createGridCell config59 2 3) \<and> \<not> occupied (createGridCell config59 2 3)"
    by (simp add: createGridCell_def determineCellType_def configureCellByType_def config59_def)
  have c0: "getCell grid59 2 0 = Some (createGridCell config59 2 0)"
    by (rule getCell_grid59 [OF v0])
  have b0: "\<not> buildable (createGridCell config59 2 0)"
    by (simp add: createGridCell_def determineCellType_def configureCellByType_def config59_def)
  from C4_occupancy [OF grid59_wf, of 2 3 7] C4_occupancy [OF grid59_wf, of 2 0 7] v c b c0 b0 grid59_wf
  show ?thesis by simp
qed

text \<open>
  Claim C10. \<open>setCellType\<close> on a valid coordinate changes only the type and the two
  flags of that cell: its occupied flag, occupant, coordinate and world position stay,
  every other cell stays, and so do the dimensions. In particular an occupied cell set
  to Obstacle is afterwards not buildable and still occupied.
\<close>

theorem C10_setCellType_frame:
  assumes wf: "grid_wf g" and c: "getCell g r c = Some cell"
  shows "fst (setCellType g r c t) \<and>
         (\<exists>cell'. getCell (snd (setCellType g r c t)) r c = Some cell' \<and>
            occupied cell' = occupied cell \<and> occupant cell' = occupant cell \<and>
            coordinate cell' = coordinate cell \<and> worldPosition cell' = worldPosition cell \<and>
            cellType cell' = t \<and>
            (t = OBSTACLE \<longrightarrow> \<not> buildable cell' \<and> \<not> walkable cell')) \<and>
         (\<forall>r' c'. (r', c') \<noteq> (r, c) \<longrightarrow>
            getCell (snd (setCellType g r c t)) r' c' = getCell g r' c') \<and>
         rows (snd (setCellType g r c t)) = rows g \<and>
         cols (snd (setCellType g r c t)) = cols g"
proof -
  from c have v: "isValidCoordinate g r c" by (simp add: getCell_def split: if_splits)
  have s: "setCellType g r c t = (True, putCell g r c (configureCellByType (cell\<lparr>cellType := t\<rparr>)))"
    using c by (simp add: setCellType_def)
  have "\<not> buildable (configureCellByType (cell\<lparr>cellType := OBSTACLE\<rparr>)) \<and>
        \<not> walkable (configureCellByType (cell\<lparr>cellType := OBSTACLE\<rparr>))"
    by (simp add: configureCellByType_def)
  then show ?thesis
    using wf v by (simp add: s getCell_putCell_same getCell_putCell_other) (simp add: putCell_def)
qed

text \<open>Witness for C10: the planted cell (2,3) of the default grid becomes an obstacle.\<close>

theorem C10_setCellType_frame_witness:
  "grid_wf grid59_planted \<and>
   getCell grid59_planted 2 3 =
     Some (createGridCell config59 2 3\<lparr>occupied := True, occupant := Some 7\<rparr>) \<and>
   fst (setCellType grid59_planted 2 3 OBSTACLE) \<and>
   (\<exists>cell'. getCell (snd (setCellType grid59_planted 2 3 OBSTACLE)) 2 3 = Some cell' \<and>
      occupied cell' \<and> occupant cell' = Some 7 \<and> \<not> buildable cell')"
proof -
  from C10_setCellType_frame [OF grid59_planted_wf getCell_grid59_planted, of OBSTACLE]
    grid59_planted_wf getCell_grid59_planted
  show ?thesis by auto
qed

text \<open>
  Claim C9, as amended. \<open>getNeighborCells\<close> returns the cells at the in-bounds
  positions among \<open>(row + dr, col + dc)\<close>, in the order of its direction list. The
  4-direction list is up, left, right, down. The 8-direction list is the row-major scan
  of the 3 x 3 block around the cell, so the diagonal neighbours stand between the
  orthogonal ones (the first is the upper-left diagonal), not after them.
\<close>

theorem C9_neighbor_order:
  "getNeighborCells g r c False =
     List.map_filter (\<lambda>(dr, dc). getCell g (r + dr) (c + dc))
       [(-1,0), (0,-1), (0,1), (1,0)] \<and>
   getNeighborCells g r c True =
     List.map_filter (\<lambda>(dr, dc). getCell g (r + dr) (c + dc))
       [(-1,-1), (-1,0), (-1,1), (0,-1), (0,1), (1,-1), (1,0), (1,1)] \<and>
   (grid_wf g \<longrightarrow>
      map coordinate (getNeighborCells g r c False) =
        map (\<lambda>(dr, dc). \<lparr>row = r + dr, col = c + dc\<rparr>)
          (filter (\<lambda>(dr, dc). isValidCoordinate g (r + dr) (c + dc))
             [(-1,0), (0,-1), (0,1), (1,0)]) \<and>
      map coordinate (getNeighborCells g r c True) =
        map (\<lambda>(dr, dc). \<lparr>row = r + dr, col = c + dc\<rparr>)
          (filter (\<lambda>(dr, dc). isValidCoordinate g (r + dr) (c + dc))
             [(-1,-1), (-1,0), (-1,1), (0,-1), (0,1), (1,-1), (1,0), (1,1)]))"
proof (intro conjI impI)
  show "getNeighborCells g r c False =
     List.map_filter (\<lambda>(dr, dc). getCell g (r + dr) (c + dc))
       [(-1,0), (0,-1), (0,1), (1,0)]"
    unfolding getNeighborCells_def directions_def
    by (simp only: collectNeighbors_map_filter if_False)
  show "getNeighborCells g r c True =
     List.map_filter (\<lambda>(dr, dc). getCell g (r + dr) (c + dc))
       [(-1,-1), (-1,0), (-1,1), (0,-1), (0,1), (1,-1), (1,0), (1,1)]"
    unfolding getNeighborCells_def directions_def
    by (simp only: collectNeighbors_map_filter if_True)
next
  assume wf: "grid_wf g"
  show "map coordinate (getNeighborCells g r c False) =
        map (\<lambda>(dr, dc). \<lparr>row = r + dr, col = c + dc\<rparr>)
          (filter (\<lambda>(dr, dc). isValidCoordinate g (r + dr) (c + dc))
             [(-1,0), (0,-1), (0,1), (1,0)])"
    unfolding getNeighborCells_def directions_def
    by (simp only: collectNeighbors_coordinates [OF wf] if_False)
  show "map coordinate (getNeighborCells g r c True) =
        map (\<lambda>(dr, dc). \<lparr>row = r + dr, col = c + dc\<rparr>)
          (filter (\<lambda>(dr, dc). isValidCoordinate g (r + dr) (c + dc))
             [(-1,-1), (-1,0), (-1,1), (0,-1), (0,1), (1,-1), (1,0), (1,1)])"
    unfolding getNeighborCells_def directions_def
    by (simp only: collectNeighbors_coordinates [OF wf] if_True)
qed

text \<open>Witness for C9: a corner and the centre of the 3 x 3 grid.\<close>

theorem C9_neighbor_order_witness:
  "grid_wf grid33 \<and>
   map coordinate (getNeighborCells grid33 0 0 False) = [\<lparr>row = 0, col = 1\<rparr>, \<lparr>row = 1, col = 0\<rparr>] \<and>
   map coordinate (getNeighborCells grid33 1 1 True) =
     [\<lparr>row = 0, col = 0\<rparr>, \<lparr>row = 0, col = 1\<rparr>, \<lparr>row = 0, col = 2\<rparr>,
      \<lparr>row = 1, col = 0\<rparr>, \<lparr>row = 1, col = 2\<rparr>,
      \<lparr>row = 2, col = 0\<rparr>, \<lparr>row = 2, col = 1\<rparr>, \<lparr>row = 2, col = 2\<rparr>]"
proof -
  note a = C9_neighbor_order [of grid33 0 0, THEN conjunct2, THEN conjunct2, THEN mp, OF grid33_wf]
  note b = C9_neighbor_order [of grid33 1 1, THEN conjunct2, THEN conjunct2, THEN mp, OF grid33_wf]
  from a [THEN conjunct1] b [THEN conjunct2] grid33_wf show ?thesis by simp
qed

text \<open>
  The claim as stated fails: around the centre (1,1) of the 3 x 3 grid the first
  neighbour returned is the diagonal (0,0), before the orthogonal (0,1).
\<close>

theorem C9_diagonal_first_counterexample:
  "map coordinate (getNeighborCells grid33 1 1 True) ! 0 = \<lparr>row = 0, col = 0\<rparr> \<and>
   map coordinate (getNeighborCells grid33 1 1 True) ! 1 = \<lparr>row = 0, col = 1\<rparr>"
proof -
  have "map coordinate (getNeighborCells grid33 1 1 True) =
     map (\<lambda>(dr, dc). \<lparr>row = 1 + dr, col = 1 + dc\<rparr>)
          (filter (\<lambda>(dr, dc). isValidCoordinate grid33 (1 + dr) (1 + dc))
             [(-1,-1), (-1,0), (-1,1), (0,-1), (0,1), (1,-1), (1,0), (1,1)])"
    unfolding getNeighborCells_def directions_def
    by (simp only: collectNeighbors_coordinates [OF grid33_wf] if_True)
  then show ?thesis by simp
qed

text \<open>
  Claim C8, as amended. \<open>reconfigureGrid\<close> has no validation and no failure: every
  field present in the partial configuration is applied, also a dimension \<open>\<le> 0\<close>, and
  the lattice is rebuilt from the new dimensions with fresh cells. With \<open>rows \<le> 0\<close> the
  new lattice is empty.
\<close>

theorem C8_reconfigure_applies:
  "reconfigureGrid g config = initializeGrid (applyConfig g config) \<and>
   rows (reconfigureGrid g config) = (case cfg_rows config of None \<Rightarrow> rows g | Some v \<Rightarrow> v) \<and>
   cols (reconfigureGrid g config) = (case cfg_cols config of None \<Rightarrow> cols g | Some v \<Rightarrow> v) \<and>
   cellWidth (reconfigureGrid g config) = (case cfg_cellWidth config of None \<Rightarrow> cellWidth g | Some v \<Rightarrow> v) \<and>
   cellHeight (reconfigureGrid g config) = (case cfg_cellHeight config of None \<Rightarrow> cellHeight g | Some v \<Rightarrow> v) \<and>
   grid_wf (reconfigureGrid g config) \<and>
   length (grid (reconfigureGrid g config)) = nat (rows (reconfigureGrid g config)) \<and>
   (rows (reconfigureGrid g config) \<le> 0 \<longrightarrow> grid (reconfigureGrid g config) = []) \<and>
   (isValidCoordinate (reconfigureGrid g config) r c \<longrightarrow>
      getCell (reconfigureGrid g config) r c = Some (createGridCell (applyConfig g config) r c))"
  unfolding reconfigureGrid_eq
proof (intro conjI impI)
  show "grid_wf (initializeGrid (applyConfig g config))" by (rule initializeGrid_wf)
  show "length (grid (initializeGrid (applyConfig g config))) = nat (rows (initializeGrid (applyConfig g config)))"
    by (simp add: length_grid_initializeGrid)
next
  assume "rows (initializeGrid (applyConfig g config)) \<le> 0"
  then show "grid (initializeGrid (applyConfig g config)) = []"
    by (simp add: grid_initializeGrid_empty)
next
  assume "isValidCoordinate (initializeGrid (applyConfig g config)) r c"
  then show "getCell (initializeGrid (applyConfig g config)) r c = Some (createGridCell (applyConfig g config) r c)"
    by (simp add: getCell_initializeGrid)
qed (simp_all add: applyConfig_fields)

text \<open>Witness for C8: the default grid reconfigured with \<open>rows = 0\<close>.\<close>

theorem C8_reconfigure_applies_witness:
  "rows (reconfigureGrid grid59 config_rows0) \<le> 0 \<and>
   grid (reconfigureGrid grid59 config_rows0) = [] \<and>
   cols (reconfigureGrid grid59 config_rows0) = 9"
proof -
  note t = C8_reconfigure_applies [of grid59 config_rows0 0 0, THEN conjunct2]
  note t2 = t [THEN conjunct2]
  note t7 = t2 [THEN conjunct2, THEN conjunct2, THEN conjunct2, THEN conjunct2]
  from t [THEN conjunct1] have r: "rows (reconfigureGrid grid59 config_rows0) = 0"
    by (simp add: config_rows0_def)
  from t2 [THEN conjunct1] have c: "cols (reconfigureGrid grid59 config_rows0) = 9"
    by (simp add: config_rows0_def)
  from r t7 [THEN conjunct2, THEN conjunct1] have "grid (reconfigureGrid grid59 config_rows0) = []"
    by simp
  with r c show ?thesis by simp
qed

text \<open>
  The claim as stated fails: reconfiguring the default 5 x 9 grid with \<open>rows = 0\<close>
  does apply the new value and replaces the lattice of five rows by the empty one.
\<close>

theorem C8_not_atomic_counterexample:
  "rows grid59 = 5 \<and> length (grid grid59) = 5 \<and>
   rows (reconfigureGrid grid59 config_rows0) = 0 \<and>
   grid (reconfigureGrid grid59 config_rows0) = [] \<and>
   reconfigureGrid grid59 config_rows0 \<noteq> grid59"
proof -
  have a: "rows (reconfigureGrid grid59 config_rows0) = 0"
    by (simp add: reconfigureGrid_eq applyConfig_def config_rows0_def)
  have b: "grid (reconfigureGrid grid59 config_rows0) = []"
    by (simp add: reconfigureGrid_eq applyConfig_def config_rows0_def initializeGrid_def)
  have c: "length (grid grid59) = 5" by (simp add: grid59_def initializeGrid_def config59_def)
  from a have d: "reconfigureGrid grid59 config_rows0 \<noteq> grid59" by auto
  from a b c d show ?thesis by simp
qed




section \<open>The claims about the path search\<close>

text \<open>
  Claim C1 (the code departs from it). For every grid, start and end, \<open>findPath\<close>
  terminates; it returns \<open>null\<close> when start or end is out of bounds, the one-element
  path when start and end are the same valid coordinate, and \<open>null\<close> in every other
  case: the start node's \<open>gScore\<close> is \<open>0\<close>, which \<open>|| Infinity\<close> turns into
  \<open>Infinity\<close>, so no neighbour of the start is ever opened.
\<close>

theorem C1_findPath_null_unless_trivial:
  "findPath g start e =
     Some (if isValidCoordinate g (row start) (col start) \<and> isValidCoordinate g (row e) (col e) \<and> start = e
           then Some [start] else None)"
  by (rule findPath_result)

text \<open>
  Witness for C1: in the default grid the spawn cells (0,8) and (1,8) are adjacent and
  walkable, and the search from one to the other returns \<open>null\<close>.
\<close>

theorem C1_findPath_null_unless_trivial_witness:
  "canWalkAt grid59 0 8 = Some True \<and> canWalkAt grid59 1 8 = Some True \<and>
   findPath grid59 \<lparr>row = 0, col = 8\<rparr> \<lparr>row = 1, col = 8\<rparr> = Some None \<and>
   findPath grid59 \<lparr>row = 0, col = 8\<rparr> \<lparr>row = 0, col = 8\<rparr> = Some (Some [\<lparr>row = 0, col = 8\<rparr>])"
proof -
  have v: "isValidCoordinate grid59 0 8" "isValidCoordinate grid59 1 8"
    by (simp_all add: isValidCoordinate_def)
  have w: "walkable (createGridCell config59 0 8) \<and> \<not> occupied (createGridCell config59 0 8)"
          "walkable (createGridCell config59 1 8) \<and> \<not> occupied (createGridCell config59 1 8)"
    by (simp_all add: createGridCell_def determineCellType_def configureCellByType_def config59_def)
  from C1_findPath_null_unless_trivial [of grid59 "\<lparr>row = 0, col = 8\<rparr>" "\<lparr>row = 1, col = 8\<rparr>"]
       C1_findPath_null_unless_trivial [of grid59 "\<lparr>row = 0, col = 8\<rparr>" "\<lparr>row = 0, col = 8\<rparr>"]
       v w getCell_grid59 [OF v(1)] getCell_grid59 [OF v(2)]
  show ?thesis by (simp add: canWalkAt_def)
qed

text \<open>
  Claim C5 (the code departs from it). The claim has two parts.

  Independence of occupancy holds: two grids that are identical except in the
  \<open>occupied\<close> and \<open>occupant\<close> fields of their cells give the same \<open>findPath\<close> result
  for every start and end, and on a well-formed grid the search loop started in any
  state and each of its relaxation steps behave the same on both grids.

  The loop over the neighbours skips a cell that is not walkable, and it treats an
  occupied walkable cell as passable: from
  a current node whose score is a positive number, an occupied walkable neighbour that
  was not seen before is appended to the open set, gets the score of the current node
  plus one, and the current node as its predecessor.

  But the search never gets that far, so no cell, occupied or not, is ever traversed:
  the score of the start node is 0, which \<open>gScore.get(...) || Infinity\<close> reads as missing,
  so relaxing the neighbours of the start node changes nothing, and for every valid
  start and end that differ the loop and \<open>findPath\<close> return null.
\<close>

theorem C5_occupancy_and_traversal:
  "(eraseOccupancy g1 = eraseOccupancy g2 \<longrightarrow>
      findPath g1 start goal = findPath g2 start goal \<and>
      (grid_wf g1 \<longrightarrow>
         (\<forall>st. astarLoop g1 goal st = astarLoop g2 goal st) \<and>
         (\<forall>cur st.
            relaxNeighbors goal cur (getNeighborCells g1 (row cur) (col cur) False) st =
            relaxNeighbors goal cur (getNeighborCells g2 (row cur) (col cur) False) st))) \<and>
   (walkable cell \<and> gScore st (getKey current) = Some (enat (Suc n)) \<and>
    gScore st (getKey (coordinate cell)) = None \<and>
    \<not> list_ex (\<lambda>coord. row coord = row (coordinate cell) \<and> col coord = col (coordinate cell)) (openSet st) \<longrightarrow>
      openSet (relaxNeighbors goal current [cell\<lparr>occupied := True, occupant := Some node\<rparr>] st)
        = openSet st @ [coordinate cell] \<and>
      gScore (relaxNeighbors goal current [cell\<lparr>occupied := True, occupant := Some node\<rparr>] st)
        (getKey (coordinate cell)) = Some (enat (Suc (Suc n))) \<and>
      cameFrom (relaxNeighbors goal current [cell\<lparr>occupied := True, occupant := Some node\<rparr>] st)
        (getKey (coordinate cell)) = Some current) \<and>
   (\<not> walkable blocked \<longrightarrow> relaxNeighbors goal current [blocked] st = st) \<and>
   relaxNeighbors goal start neighbors ((initialSearch start goal)\<lparr>openSet := []\<rparr>)
     = (initialSearch start goal)\<lparr>openSet := []\<rparr> \<and>
   (isValidCoordinate g (row start) (col start) \<and> isValidCoordinate g (row goal) (col goal) \<and>
    start \<noteq> goal \<longrightarrow>
      astarLoop g goal (initialSearch start goal) = Some None \<and> findPath g start goal = Some None)"
proof (intro conjI impI allI)
  assume e: "eraseOccupancy g1 = eraseOccupancy g2"
  show "findPath g1 start goal = findPath g2 start goal"
    by (simp only: findPath_result isValid_eraseOccupancy [OF e])
  fix st
  assume wf: "grid_wf g1"
  show "astarLoop g1 goal st = astarLoop g2 goal st"
    by (rule astarLoop_eraseOccupancy [OF e wf])
  fix cur
  show "relaxNeighbors goal cur (getNeighborCells g1 (row cur) (col cur) False) st =
        relaxNeighbors goal cur (getNeighborCells g2 (row cur) (col cur) False) st"
    by (rule relaxNeighbors_cong [OF neighbors_view_eraseOccupancy [OF e wf]])
next
  assume h: "walkable cell \<and> gScore st (getKey current) = Some (enat (Suc n)) \<and>
    gScore st (getKey (coordinate cell)) = None \<and>
    \<not> list_ex (\<lambda>coord. row coord = row (coordinate cell) \<and> col coord = col (coordinate cell)) (openSet st)"
  let ?cell = "cell\<lparr>occupied := True, occupant := Some node\<rparr>"
  from h have r: "relaxNeighbors goal current [?cell] st =
           st\<lparr>cameFrom := (cameFrom st)(getKey (coordinate ?cell) \<mapsto> current),
               gScore := (gScore st)(getKey (coordinate ?cell) \<mapsto> enat (Suc (Suc n))),
               fScore := (fScore st)(getKey (coordinate ?cell) \<mapsto> enat (Suc (Suc n)) + heuristic (coordinate ?cell) goal),
               openSet := openSet st @ [coordinate ?cell]\<rparr>"
    by (intro relaxNeighbors_opens) simp_all
  show "openSet (relaxNeighbors goal current [?cell] st) = openSet st @ [coordinate cell]"
    by (subst r) simp
  show "gScore (relaxNeighbors goal current [?cell] st) (getKey (coordinate cell)) = Some (enat (Suc (Suc n)))"
    by (subst r) simp
  show "cameFrom (relaxNeighbors goal current [?cell] st) (getKey (coordinate cell)) = Some current"
    by (subst r) simp
next
  assume "\<not> walkable blocked"
  then show "relaxNeighbors goal current [blocked] st = st" by simp
next
  show "relaxNeighbors goal start neighbors ((initialSearch start goal)\<lparr>openSet := []\<rparr>)
     = (initialSearch start goal)\<lparr>openSet := []\<rparr>"
    by (rule relaxNeighbors_initialSearch)
next
  assume h: "isValidCoordinate g (row start) (col start) \<and> isValidCoordinate g (row goal) (col goal) \<and>
    start \<noteq> goal"
  then have f: "findPath g start goal = Some None" by (simp add: findPath_result)
  then show "findPath g start goal = Some None" .
  from f h show "astarLoop g goal (initialSearch start goal) = Some None"
    by (simp add: findPath_initialSearch)
qed

text \<open>
  Witness for C5: in the corridor of one row and three columns whose middle cell (0,1)
  is an Empty (walkable) cell occupied by node 7, the search from (0,2) to (0,0) must
  go through the occupied cell. The occupied corridor and the free one differ by
  occupancy only and \<open>findPath\<close> returns null on both. From a state in which the node
  (0,2) has score 1 the relaxation step opens the occupied cell (0,1) and skips the same
  cell made non-walkable; from the initial state of the search, in which (0,2) has score
  0, the step opens nothing.
\<close>

theorem C5_occupancy_and_traversal_witness:
  "getCell corridorOccupied 0 1 =
     Some (configureCellByType (createGridCell config13 0 1\<lparr>cellType := EMPTY\<rparr>)
             \<lparr>occupied := True, occupant := Some 7\<rparr>) \<and>
   walkable (configureCellByType (createGridCell config13 0 1\<lparr>cellType := EMPTY\<rparr>)) \<and>
   eraseOccupancy corridorOccupied = eraseOccupancy corridor \<and>
   grid_wf corridorOccupied \<and>
   findPath corridorOccupied \<lparr>row = 0, col = 2\<rparr> \<lparr>row = 0, col = 0\<rparr> = Some None \<and>
   findPath corridor \<lparr>row = 0, col = 2\<rparr> \<lparr>row = 0, col = 0\<rparr> = Some None \<and>
   openSet (relaxNeighbors \<lparr>row = 0, col = 0\<rparr> \<lparr>row = 0, col = 2\<rparr>
              (getNeighborCells corridorOccupied 0 2 False) probeState) = [\<lparr>row = 0, col = 1\<rparr>] \<and>
   relaxNeighbors \<lparr>row = 0, col = 0\<rparr> \<lparr>row = 0, col = 2\<rparr>
     [configureCellByType (createGridCell config13 0 1\<lparr>cellType := EMPTY\<rparr>)\<lparr>walkable := False\<rparr>]
     probeState = probeState \<and>
   openSet (relaxNeighbors \<lparr>row = 0, col = 0\<rparr> \<lparr>row = 0, col = 2\<rparr>
              (getNeighborCells corridorOccupied 0 2 False)
              ((initialSearch \<lparr>row = 0, col = 2\<rparr> \<lparr>row = 0, col = 0\<rparr>)\<lparr>openSet := []\<rparr>)) = []"
proof -
  let ?cell = "configureCellByType (createGridCell config13 0 1\<lparr>cellType := EMPTY\<rparr>)"
  let ?s = "\<lparr>row = 0, col = 2\<rparr>" and ?e = "\<lparr>row = 0, col = 0\<rparr>"
  note t = C5_occupancy_and_traversal
    [where ?g1.0 = corridorOccupied and ?g2.0 = corridor and start = ?s and goal = ?e
       and cell = ?cell and st = probeState and current = ?s and n = 0 and node = 7
       and blocked = "?cell\<lparr>walkable := False\<rparr>"
       and neighbors = "getNeighborCells corridorOccupied 0 2 False" and g = corridorOccupied]
  have c: "coordinate ?cell = \<lparr>row = 0, col = 1\<rparr>" using getCell_coordinate [OF corridor_wf corridor_middle] .
  have h2: "walkable ?cell \<and> gScore probeState (getKey ?s) = Some (enat (Suc 0)) \<and>
      gScore probeState (getKey (coordinate ?cell)) = None \<and>
      \<not> list_ex (\<lambda>coord. row coord = row (coordinate ?cell) \<and> col coord = col (coordinate ?cell))
            (openSet probeState)"
    unfolding c by (simp add: corridor_middle_flags probeState_def getKey_def one_enat_def)
  have h4: "isValidCoordinate corridorOccupied (row ?s) (col ?s) \<and>
      isValidCoordinate corridorOccupied (row ?e) (col ?e) \<and> ?s \<noteq> ?e"
    by (simp add: isValidCoordinate_def)
  from t [THEN conjunct1, THEN mp, OF corridor_erase, THEN conjunct1]
  have same: "findPath corridorOccupied ?s ?e = findPath corridor ?s ?e" .
  have os: "openSet probeState = []" by (simp add: probeState_def)
  from t [THEN conjunct2, THEN conjunct1, THEN mp, OF h2, THEN conjunct1]
  have opened: "openSet (relaxNeighbors ?e ?s (getNeighborCells corridorOccupied 0 2 False) probeState)
      = [\<lparr>row = 0, col = 1\<rparr>]"
    by (simp only: corridorOccupied_neighbors c os append_Nil)
  from t [THEN conjunct2, THEN conjunct2, THEN conjunct1]
  have skipped: "relaxNeighbors ?e ?s [?cell\<lparr>walkable := False\<rparr>] probeState = probeState"
    by simp
  from t [THEN conjunct2, THEN conjunct2, THEN conjunct2, THEN conjunct1]
  have stuck: "openSet (relaxNeighbors ?e ?s (getNeighborCells corridorOccupied 0 2 False)
      ((initialSearch ?s ?e)\<lparr>openSet := []\<rparr>)) = []"
    by simp
  from t [THEN conjunct2, THEN conjunct2, THEN conjunct2, THEN conjunct2, THEN mp, OF h4, THEN conjunct2]
  have null: "findPath corridorOccupied ?s ?e = Some None" .
  with same have null': "findPath corridor ?s ?e = Some None" by simp
  from corridorOccupied_middle corridor_middle_flags(1) corridor_erase corridorOccupied_wf
    null null' opened skipped stuck
  show ?thesis by (intro conjI)
qed

section \<open>The claims about projectiles and the weapon controller\<close>

text \<open>
  Claim C7. For an active projectile, a contact with a target that is not in the hit-set
  and has a valid tag is a hit: the hit count goes up by one, and the projectile is
  destroyed exactly when \<open>penetration \<le> 0\<close> or the new hit count has reached
  \<open>penetration\<close>. A contact with a target already in the hit-set changes nothing and
  emits nothing. A freshly enabled projectile with \<open>penetration = 2\<close> survives its first
  hit, ignores a second contact with the same target, and is destroyed by the hit on a
  second, different target. All of this holds whether or not the targets have a
  controller that takes damage.
\<close>

theorem C7_penetration:
  assumes act: "nodeActive b"
  shows "(t \<notin> hitTargets b \<and> isValidTarget b tag \<and> \<not> (hasHit b \<and> penetration b \<le> 0) \<longrightarrow>
            onBeginContact takesDamage b t tag = hitTarget takesDamage b t \<and>
            hitCount (fst (onBeginContact takesDamage b t tag)) = hitCount b + 1 \<and>
            (destroyed (onBeginContact takesDamage b t tag) \<longleftrightarrow>
               penetration b \<le> 0 \<or> real (hitCount b + 1) \<ge> penetration b) \<and>
            (nodeActive (fst (onBeginContact takesDamage b t tag)) \<longleftrightarrow>
               \<not> (penetration b \<le> 0 \<or> real (hitCount b + 1) \<ge> penetration b))) \<and>
         (t \<in> hitTargets b \<longrightarrow> onBeginContact takesDamage b t tag = (b, [])) \<and>
         (penetration b = 2 \<and> t1 \<noteq> t2 \<and> isValidTarget b tag1 \<and> isValidTarget b tag2 \<longrightarrow>
            \<not> destroyed (onBeginContact takesDamage (onEnable b) t1 tag1) \<and>
            nodeActive (fst (onBeginContact takesDamage (onEnable b) t1 tag1)) \<and>
            onBeginContact takesDamage (fst (onBeginContact takesDamage (onEnable b) t1 tag1)) t1 tag1 =
              (fst (onBeginContact takesDamage (onEnable b) t1 tag1), []) \<and>
            destroyed (onBeginContact takesDamage (fst (onBeginContact takesDamage (onEnable b) t1 tag1)) t2 tag2) \<and>
            hitCount (fst (onBeginContact takesDamage (fst (onBeginContact takesDamage (onEnable b) t1 tag1)) t2 tag2)) = 2)"
proof (intro conjI impI)
  assume h: "t \<notin> hitTargets b \<and> isValidTarget b tag \<and> \<not> (hasHit b \<and> penetration b \<le> 0)"
  then have e: "onBeginContact takesDamage b t tag = hitTarget takesDamage b t"
    by (auto simp: onBeginContact_def)
  show "onBeginContact takesDamage b t tag = hitTarget takesDamage b t" by (rule e)
  show "hitCount (fst (onBeginContact takesDamage b t tag)) = hitCount b + 1"
    by (simp add: e hitTarget_fields)
  show "destroyed (onBeginContact takesDamage b t tag) \<longleftrightarrow>
          penetration b \<le> 0 \<or> real (hitCount b + 1) \<ge> penetration b"
    unfolding e by (rule hitTarget_destroyed [OF act])
  show "nodeActive (fst (onBeginContact takesDamage b t tag)) \<longleftrightarrow>
          \<not> (penetration b \<le> 0 \<or> real (hitCount b + 1) \<ge> penetration b)"
    unfolding e using act by (simp add: hitTarget_active)
next
  assume "t \<in> hitTargets b"
  then show "onBeginContact takesDamage b t tag = (b, [])" by (simp add: onBeginContact_def)
next
  assume h: "penetration b = 2 \<and> t1 \<noteq> t2 \<and> isValidTarget b tag1 \<and> isValidTarget b tag2"
  let ?b0 = "onEnable b"
  have b0: "penetration ?b0 = 2" "hitCount ?b0 = 0" "hitTargets ?b0 = {}" "\<not> hasHit ?b0" "nodeActive ?b0"
    using h act by (simp_all add: onEnable_def)
  have v0: "isValidTarget ?b0 tag1" "isValidTarget ?b0 tag2"
    using h by simp_all
  have e1: "onBeginContact takesDamage ?b0 t1 tag1 = hitTarget takesDamage ?b0 t1"
    using b0 v0 by (simp add: onBeginContact_def)
  let ?b1 = "fst (hitTarget takesDamage ?b0 t1)"
  have b1: "penetration ?b1 = 2" "hitCount ?b1 = 1" "hitTargets ?b1 = {t1}" "nodeActive ?b1"
    "isValidTarget ?b1 tag2"
    using b0 v0 by (simp_all add: hitTarget_fields hitTarget_active)
  have e2: "onBeginContact takesDamage ?b1 t2 tag2 = hitTarget takesDamage ?b1 t2"
    using b1 h by (simp add: onBeginContact_def)
  show "\<not> destroyed (onBeginContact takesDamage ?b0 t1 tag1)"
    unfolding e1 using b0 by (simp add: hitTarget_destroyed)
  show "nodeActive (fst (onBeginContact takesDamage ?b0 t1 tag1))"
    unfolding e1 by (rule b1)
  show "onBeginContact takesDamage (fst (onBeginContact takesDamage ?b0 t1 tag1)) t1 tag1 = (fst (onBeginContact takesDamage ?b0 t1 tag1), [])"
    unfolding e1 using b1 by (simp add: onBeginContact_def)
  show "destroyed (onBeginContact takesDamage (fst (onBeginContact takesDamage ?b0 t1 tag1)) t2 tag2)"
    unfolding e1 e2 using b1 by (simp add: hitTarget_destroyed)
  show "hitCount (fst (onBeginContact takesDamage (fst (onBeginContact takesDamage ?b0 t1 tag1)) t2 tag2)) = 2"
    unfolding e1 e2 using b1 by (simp add: hitTarget_fields)
qed

text \<open>
  Witness for C7: a cannon shell hitting the enemies 1 and 2, in a scene where every
  node has a controller that takes damage.
\<close>

theorem C7_penetration_witness:
  "nodeActive cannonBullet \<and> penetration cannonBullet = 2 \<and> (1::nat) \<noteq> 2 \<and>
   isValidTarget cannonBullet ''Enemy'' \<and>
   nodeActive (fst (onBeginContact (\<lambda>n. True) cannonBullet 1 ''Enemy'')) \<and>
   destroyed (onBeginContact (\<lambda>n. True) (fst (onBeginContact (\<lambda>n. True) cannonBullet 1 ''Enemy'')) 2 ''Enemy'') \<and>
   1 \<notin> hitTargets cannonBullet \<and>
   hitCount (fst (onBeginContact (\<lambda>n. True) cannonBullet 1 ''Enemy'')) = 1"
proof -
  have h1: "1 \<notin> hitTargets cannonBullet \<and> isValidTarget cannonBullet ''Enemy'' \<and>
            \<not> (hasHit cannonBullet \<and> penetration cannonBullet \<le> 0)"
    by (simp add: cannonBullet_facts)
  have h3: "penetration cannonBullet = 2 \<and> (1::nat) \<noteq> 2 \<and>
            isValidTarget cannonBullet ''Enemy'' \<and> isValidTarget cannonBullet ''Enemy''"
    by (simp add: cannonBullet_facts)
  note t = C7_penetration [OF cannonBullet_facts(1), of 1 "''Enemy''" "\<lambda>n. True" 1 2 "''Enemy''" "''Enemy''"]
  note p1 = t [THEN conjunct1, THEN mp, OF h1]
  note p3 = t [THEN conjunct2, THEN conjunct2, THEN mp, OF h3, unfolded cannonBullet_facts(3)]
  have a: "hitCount (fst (onBeginContact (\<lambda>n. True) cannonBullet 1 ''Enemy'')) = 1"
    using p1 [THEN conjunct2, THEN conjunct1] by (simp add: cannonBullet_def onEnable_def)
  from p3 [THEN conjunct2, THEN conjunct1] p3 [THEN conjunct2, THEN conjunct2, THEN conjunct2, THEN conjunct1]
    a h1 h3 cannonBullet_facts(1)
  show ?thesis by simp
qed

text \<open>
  Claim C6. From a state with \<open>0 \<le> currentEnergy \<le> maxEnergy\<close>, non-negative energy
  costs in every stored configuration and a non-negative regeneration rate, every finite
  sequence of \<open>update\<close> calls with non-negative \<open>deltaTime\<close> and \<open>fire\<close> calls, at
  any times and whatever the methods working on the bullets do, ends in a state with
  \<open>0 \<le> currentEnergy \<le> maxEnergy\<close>. Regeneration is clamped to \<open>maxEnergy\<close>;
  \<open>fire\<close> deducts the energy cost exactly when \<open>canFire\<close> holds, and returns false
  without any change when the energy is below the cost.
\<close>

theorem C6_energy_bounds:
  assumes "0 \<le> currentEnergy s" and "currentEnergy s \<le> maxEnergy s"
    and "costsNonneg s" and "0 \<le> energyRegenRate s" and "ticksNonneg calls"
  shows "0 \<le> currentEnergy (run ops calls s) \<and>
         currentEnergy (run ops calls s) \<le> maxEnergy (run ops calls s) \<and>
         currentEnergy (updateEnergyRegen deltaTime s) =
           (if currentEnergy s < maxEnergy s
            then min (maxEnergy s) (currentEnergy s + energyRegenRate s * deltaTime)
            else currentEnergy s) \<and>
         currentEnergy (snd (fire ops now target s)) =
           (if canFire now s then currentEnergy s - wc_energyCost (getCurrentWeaponConfig s)
            else currentEnergy s) \<and>
         (currentEnergy s < wc_energyCost (getCurrentWeaponConfig s) \<longrightarrow>
            fire ops now target s = (Returned False, s))"
proof -
  from assms have "energyInv s" by (simp add: energyInv_def)
  then have "energyInv (run ops calls s)" using assms(5) by (rule run_inv)
  then have a: "0 \<le> currentEnergy (run ops calls s) \<and>
         currentEnergy (run ops calls s) \<le> maxEnergy (run ops calls s)"
    by (simp add: energyInv_def)
  have b: "currentEnergy s < wc_energyCost (getCurrentWeaponConfig s) \<longrightarrow>
            fire ops now target s = (Returned False, s)"
    by (simp add: fire_def canFire_def Let_def)
  from a b show ?thesis by (simp add: fire_fields updateEnergyRegen_def)
qed

text \<open>
  Witness for C6: the default controller fires once (energy 100 to 99) and is updated
  with a tick of 16 ms (energy 99.08).
\<close>

theorem C6_energy_bounds_witness:
  "0 \<le> currentEnergy weapons0 \<and> currentEnergy weapons0 \<le> maxEnergy weapons0 \<and>
   costsNonneg weapons0 \<and> 0 \<le> energyRegenRate weapons0 \<and>
   ticksNonneg [Fire 1 None, Update (2 / 125) (127 / 125)] \<and>
   currentEnergy (run noBulletOps [Fire 1 None, Update (2 / 125) (127 / 125)] weapons0) = 2477 / 25 \<and>
   0 \<le> currentEnergy (run noBulletOps [Fire 1 None, Update (2 / 125) (127 / 125)] weapons0) \<and>
   currentEnergy (run noBulletOps [Fire 1 None, Update (2 / 125) (127 / 125)] weapons0)
     \<le> maxEnergy (run noBulletOps [Fire 1 None, Update (2 / 125) (127 / 125)] weapons0)"
proof -
  have t: "ticksNonneg [Fire 1 None, Update (2 / 125) (127 / 125)]" by simp
  note c = C6_energy_bounds [OF weapons0_facts t, of noBulletOps]
  from c [THEN conjunct1] c [THEN conjunct2, THEN conjunct1] weapons0_facts t weapons0_run
  show ?thesis by (intro conjI)
qed

end
